theory Spec2Isabelle
  imports Complex_Main "HOL-Library.Log_Nat" "HOL-Library.Sublist"
begin

section \<open>Python exceptions\<close>

text \<open>
  Every \<^verbatim>\<open>raise\<close> of the source is a value of this type; a fallible function returns
  \<open>exn + 'a\<close> with \<open>Inl\<close> for the exception. All constructors are subclasses of Python's
  \<^verbatim>\<open>Exception\<close>, so \<^verbatim>\<open>except Exception\<close> catches each of them.
\<close>

datatype exn =
    StopIteration
  | ValueError
  | AttributeError
  | IndexError
  | KeyError
  | TypeError
  | RuntimeError
  | NameError
  | NotImplementedError
  | FileNotFoundError

section \<open>The identity cache (metaclasses \<^verbatim>\<open>_Cached\<close> and \<^verbatim>\<open>Cached\<close>)\<close>

text \<open>
  Instances live in a heap and are named by their address: Python's \<^verbatim>\<open>is\<close> is equality
  of addresses. An instance carries its \<^verbatim>\<open>_key\<close> attribute (absent until the
  metaclass sets it) and the rest of its \<^verbatim>\<open>__dict__\<close>. The heap also holds the class
  attribute \<^verbatim>\<open>_cache\<close> of the one class under consideration.
\<close>

type_synonym addr = nat

record ('k, 'v) pyobj =
  okey :: "'k option"
  odict :: "string \<rightharpoonup> 'v"

record ('k, 'v) heap =
  objs :: "addr \<rightharpoonup> ('k, 'v) pyobj"
  cache :: "'k \<rightharpoonup> addr"
  next_addr :: addr

text \<open>
  A class that uses the metaclass. The initializers of the concrete molecule classes are
  not part of \<^verbatim>\<open>molecule.py\<close>, so \<^verbatim>\<open>__init__\<close> is a parameter: given the
  constructor arguments, the address of the new instance and the class cache, it either
  raises or yields the attributes it stored on the instance together with the cache as it
  left it. \<open>get_key\<close> is \<^verbatim>\<open>cls._get_key(**sig.arguments)\<close> and \<open>use_cache\<close> is
  \<^verbatim>\<open>sig.arguments['use_cache']\<close> after the defaults were applied.
\<close>

record ('a, 'k, 'v) cls =
  get_key :: "'a \<Rightarrow> exn + 'k"
  use_cache :: "'a \<Rightarrow> bool"
  init :: "'a \<Rightarrow> addr \<Rightarrow> ('k \<rightharpoonup> addr) \<Rightarrow> exn + ((string \<rightharpoonup> 'v) \<times> ('k \<rightharpoonup> addr))"

text \<open>\<^verbatim>\<open>type.__call__\<close>: allocate a new instance, then run \<^verbatim>\<open>__init__\<close> on it.\<close>

definition type_call ::
  "('a \<Rightarrow> addr \<Rightarrow> ('k \<rightharpoonup> addr) \<Rightarrow> exn + ((string \<rightharpoonup> 'v) \<times> ('k \<rightharpoonup> addr)))
    \<Rightarrow> 'a \<Rightarrow> ('k, 'v) heap \<Rightarrow> exn + (addr \<times> ('k, 'v) heap)" where
  "type_call ini args h =
     (let a = next_addr h in
      case ini args a (cache h) of
        Inl e \<Rightarrow> Inl e
      | Inr (d, c') \<Rightarrow>
          Inr (a, \<lparr>objs = (objs h)(a \<mapsto> \<lparr>okey = None, odict = d\<rparr>),
                   cache = c', next_addr = Suc a\<rparr>))"

text \<open>\<^verbatim>\<open>obj._key = key\<close>\<close>

definition set_key :: "addr \<Rightarrow> 'k \<Rightarrow> ('k, 'v) heap \<Rightarrow> ('k, 'v) heap" where
  "set_key a k h =
     (case objs h a of
        None \<Rightarrow> h
      | Some ob \<Rightarrow> h\<lparr>objs := (objs h)(a \<mapsto> ob\<lparr>okey := Some k\<rparr>)\<rparr>)"

text \<open>
  \<^verbatim>\<open>_Cached.__call__\<close> of \<^verbatim>\<open>stk/molecular/molecules/molecule.py\<close>. The key is
  computed first; the cache is looked at only when \<^verbatim>\<open>use_cache\<close> is true (Python's
  \<^verbatim>\<open>and\<close> short-circuits); the method itself never stores into the cache.
\<close>

definition Cached_call ::
  "('a, 'k, 'v) cls \<Rightarrow> 'a \<Rightarrow> ('k, 'v) heap \<Rightarrow> exn + (addr \<times> ('k, 'v) heap)" where
  "Cached_call c args h =
     (case get_key c args of
        Inl e \<Rightarrow> Inl e
      | Inr key \<Rightarrow>
          (case (if use_cache c args then cache h key else None) of
             Some a \<Rightarrow> Inr (a, h)
           | None \<Rightarrow>
               (case type_call (init c) args h of
                  Inl e \<Rightarrow> Inl e
                | Inr (a, h') \<Rightarrow> Inr (a, set_key a key h'))))"

text \<open>
  \<^verbatim>\<open>Molecule.update_cache\<close>: when the key of the instance is cached, the cached
  instance takes over a copy of this instance's \<^verbatim>\<open>__dict__\<close> (the \<^verbatim>\<open>_key\<close> with it);
  otherwise this instance becomes the cached one.
\<close>

definition update_cache :: "addr \<Rightarrow> ('k, 'v) heap \<Rightarrow> exn + ('k, 'v) heap" where
  "update_cache a h =
     (case objs h a of
        None \<Rightarrow> Inl AttributeError
      | Some ob \<Rightarrow>
          (case okey ob of
             None \<Rightarrow> Inl AttributeError
           | Some k \<Rightarrow>
               (case cache h k of
                  Some b \<Rightarrow> Inr (h\<lparr>objs := (objs h)(b \<mapsto> ob)\<rparr>)
                | None \<Rightarrow> Inr (h\<lparr>cache := (cache h)(k \<mapsto> a)\<rparr>))))"

text \<open>
  \<^verbatim>\<open>Cached.__call__\<close> of \<^verbatim>\<open>classes/molecular.py\<close>: the key is the argument tuple
  itself, there is no \<^verbatim>\<open>use_cache\<close> switch, and the metaclass stores the new instance.
  The cache is a \<^verbatim>\<open>WeakValueDictionary\<close>: an entry lasts as long as its instance.
\<close>

definition Cached_old_call ::
  "('a \<Rightarrow> addr \<Rightarrow> ('a \<rightharpoonup> addr) \<Rightarrow> exn + ((string \<rightharpoonup> 'v) \<times> ('a \<rightharpoonup> addr)))
    \<Rightarrow> 'a \<Rightarrow> ('a, 'v) heap \<Rightarrow> exn + (addr \<times> ('a, 'v) heap)" where
  "Cached_old_call ini args h =
     (case cache h args of
        Some a \<Rightarrow> Inr (a, h)
      | None \<Rightarrow>
          (case type_call ini args h of
             Inl e \<Rightarrow> Inl e
           | Inr (a, h') \<Rightarrow> Inr (a, h'\<lparr>cache := (cache h')(args \<mapsto> a)\<rparr>)))"

text \<open>A heap is well formed when addresses in use lie below the allocation pointer.\<close>

definition wf_heap :: "('k, 'v) heap \<Rightarrow> bool" where
  "wf_heap h \<longleftrightarrow> (\<forall>a \<in> dom (objs h). a < next_addr h) \<and> ran (cache h) \<subseteq> dom (objs h)"

definition empty_heap :: "('k, 'v) heap" where
  "empty_heap = \<lparr>objs = Map.empty, cache = Map.empty, next_addr = 0\<rparr>"

text \<open>
  A class whose initializer only stores its argument on the instance, as
  \<^verbatim>\<open>Molecule.__init__\<close> does with \<^verbatim>\<open>atoms\<close> and \<^verbatim>\<open>bonds\<close>: it leaves the
  cache alone. Its arguments are a path and the \<^verbatim>\<open>use_cache\<close> flag; the key is the path.
\<close>

definition plain_cls :: "(string \<times> bool, string, string) cls" where
  "plain_cls = \<lparr>get_key = (\<lambda>(p, u). Inr p), use_cache = (\<lambda>(p, u). u),
     init = (\<lambda>(p, u) a c. Inr ([''path'' \<mapsto> p], c))\<rparr>"

text \<open>What a call returned and the heap it left, for reading results of a run.\<close>

definition returned :: "exn + (addr \<times> 'h) \<Rightarrow> addr option" where
  "returned r = (case r of Inl e \<Rightarrow> None | Inr (a, h) \<Rightarrow> Some a)"

definition heap_after :: "'h \<Rightarrow> exn + (addr \<times> 'h) \<Rightarrow> 'h" where
  "heap_after h0 r = (case r of Inl e \<Rightarrow> h0 | Inr (a, h) \<Rightarrow> h)"


section \<open>Cages (\<^verbatim>\<open>classes/molecular.py\<close>)\<close>

text \<open>
  A structural unit is named by the structure file it was made from; the two classes the
  mutation operators tell apart with \<^verbatim>\<open>isinstance\<close> are the two constructors.
\<close>

datatype struct_unit = StructUnit2 string | StructUnit3 string

fun is_StructUnit2 :: "struct_unit \<Rightarrow> bool" where
  "is_StructUnit2 (StructUnit2 f) = True"
| "is_StructUnit2 (StructUnit3 f) = False"

fun is_StructUnit3 :: "struct_unit \<Rightarrow> bool" where
  "is_StructUnit3 (StructUnit3 f) = True"
| "is_StructUnit3 (StructUnit2 f) = False"

text \<open>
  A cage: its building blocks (as \<^verbatim>\<open>mutation.py\<close> passes and reads them), the class of
  its topology, the file it is written to, and its fitness (\<^verbatim>\<open>None\<close> until a fitness
  function sets it).
\<close>

record cage =
  building_blocks :: "struct_unit list"
  topology :: string
  prist_mol_file :: string
  fitness :: "real option"

text \<open>
  The building-block* and the linker of a cage, read the way the mutation operators read
  them: \<^verbatim>\<open>next(x for x in cage.building_blocks if isinstance(x, StructUnit3))\<close>.
\<close>

definition bb :: "cage \<Rightarrow> struct_unit option" where
  "bb c = find is_StructUnit3 (building_blocks c)"

definition lk :: "cage \<Rightarrow> struct_unit option" where
  "lk c = find is_StructUnit2 (building_blocks c)"

text \<open>\<^verbatim>\<open>Cage.same_cage\<close>: the same building-block*, linker and topology.\<close>

definition same_cage :: "cage \<Rightarrow> cage \<Rightarrow> bool" where
  "same_cage c other \<longleftrightarrow> bb c = bb other \<and> lk c = lk other \<and> topology c = topology other"


text \<open>
  Modelled from the spec: the subtraction of populations (\<^verbatim>\<open>mutant_pop -= population\<close>).
  Class \<^verbatim>\<open>Population\<close> is not among the sources. Section 4.4, step 5: a mutant that is
  structurally identical, by the same-structure check and not by fitness equality, to a
  member of the source population is discarded from the output.
\<close>

definition population_sub :: "cage list \<Rightarrow> cage list \<Rightarrow> cage list" where
  "population_sub mutants population =
     filter (\<lambda>m. \<not> list_ex (same_cage m) population) mutants"

section \<open>The mutation engine (\<^verbatim>\<open>classes/ga/mutation.py\<close>)\<close>

text \<open>
  What the engine asks of the outside world: the listing of a directory (\<open>None\<close> when
  it does not exist), the files the generator \<^verbatim>\<open>similar_molecules\<close> of a structural
  unit yields for a database (most similar first), whether the assembly of a cage raises,
  the draws of the random number generator, and the working directory.
\<close>

record env =
  listdir :: "string \<Rightarrow> string list option"
  similar_molecules :: "struct_unit \<Rightarrow> string \<Rightarrow> string list"
  assemble :: "struct_unit list \<Rightarrow> string \<Rightarrow> exn option"
  rnd :: "nat \<Rightarrow> nat"
  cwd :: string

text \<open>
  The state a round changes: the call counter of the engine, the position in the stream
  of random draws, the generators attached to cages as \<^verbatim>\<open>_similar_bb_mols\<close> and
  \<^verbatim>\<open>_similar_lk_mols\<close> (each given by what it has left to yield; cages are cached, so
  an attribute of the instance is an entry under the cage), and the
  \<^verbatim>\<open>MacroMolError\<close> reports.
\<close>

record mstate =
  n_calls :: nat
  draws :: nat
  similar_bb_mols :: "cage \<rightharpoonup> string list"
  similar_lk_mols :: "cage \<rightharpoonup> string list"
  errors :: "(exn \<times> cage \<times> string) list"

datatype params = Database string | Topologies "string list"

datatype func_data = FunctionData (fname: string) (fparams: params)

text \<open>
  The engine: \<open>weights_valid\<close> says whether numpy accepts \<^verbatim>\<open>self.weights\<close> as the
  probabilities of \<^verbatim>\<open>self.funcs\<close> (\<^verbatim>\<open>None\<close> always is); the weights themselves
  only bias the draw, which \<open>rnd\<close> stands for.
\<close>

record mutation =
  funcs :: "func_data list"
  weights_valid :: bool
  num_mutations :: int

fun digit_char :: "nat \<Rightarrow> char" where
  "digit_char n = ''0123456789'' ! (n mod 10)"

function show_nat :: "nat \<Rightarrow> string" where
  "show_nat n = (if n < 10 then [digit_char n] else show_nat (n div 10) @ [digit_char n])"
  by pat_completeness auto
termination
  by (relation "measure id") auto

text \<open>\<^verbatim>\<open>self.name.format(n)\<close> with \<^verbatim>\<open>self.name = "mutation_{0}.mol"\<close>\<close>

definition name_format :: "nat \<Rightarrow> string" where
  "name_format n = ''mutation_'' @ show_nat n @ ''.mol''"

text \<open>\<^verbatim>\<open>os.path.join\<close> of two components (POSIX).\<close>

definition path_join :: "string \<Rightarrow> string \<Rightarrow> string" where
  "path_join a b =
     (if b \<noteq> [] \<and> hd b = CHR ''/'' then b
      else if a = [] \<or> last a = CHR ''/'' then a @ b
      else a @ ''/'' @ b)"

text \<open>\<^verbatim>\<open>np.random.choice(xs)\<close>: \<^verbatim>\<open>ValueError\<close> on an empty sequence, else one draw.\<close>

definition random_choice :: "env \<Rightarrow> mstate \<Rightarrow> 'a list \<Rightarrow> (exn + 'a) \<times> mstate" where
  "random_choice ev st xs =
     (if xs = [] then (Inl ValueError, st)
      else (Inr (xs ! (rnd ev (draws st) mod length xs)), st\<lparr>draws := Suc (draws st)\<rparr>))"

text \<open>
  The call \<^verbatim>\<open>Cage(units, topology, path)\<close>: the assembly may raise; the new cage has no
  fitness yet.
\<close>

definition Cage :: "env \<Rightarrow> struct_unit list \<Rightarrow> string \<Rightarrow> string \<Rightarrow> exn + cage" where
  "Cage ev units topo path =
     (case assemble ev units topo of
        Some e \<Rightarrow> Inl e
      | None \<Rightarrow> Inr \<lparr>building_blocks = units, topology = topo, prist_mol_file = path,
                     fitness = None\<rparr>)"

text \<open>\<^verbatim>\<open>os.path.join(os.getcwd(), self.name.format(self.n_calls))\<close>\<close>

definition mutant_path :: "env \<Rightarrow> mstate \<Rightarrow> string" where
  "mutant_path ev st = path_join (cwd ev) (name_format (n_calls st))"

text \<open>
  The loop \<^verbatim>\<open>while True\<close> of \<^verbatim>\<open>random_bb\<close> and \<^verbatim>\<open>random_lk\<close>: draw files of the
  database until one ends with \<^verbatim>\<open>.mol\<close>. It need not end: not returning is \<open>None\<close>.
\<close>

partial_function (option) pick_mol ::
  "env \<Rightarrow> string \<Rightarrow> mstate \<Rightarrow> ((exn + string) \<times> mstate) option" where
  "pick_mol ev database st =
     (case listdir ev database of
        None \<Rightarrow> Some (Inl FileNotFoundError, st)
      | Some files \<Rightarrow>
          (case random_choice ev st files of
             (Inl e, st') \<Rightarrow> Some (Inl e, st')
           | (Inr f, st') \<Rightarrow>
               if suffix ''.mol'' f then Some (Inr f, st') else pick_mol ev database st'))"

declare pick_mol.simps [code]

definition random_bb ::
  "env \<Rightarrow> mstate \<Rightarrow> cage \<Rightarrow> string \<Rightarrow> ((exn + cage) \<times> mstate) option" where
  "random_bb ev st c database =
     (case pick_mol ev database st of
        None \<Rightarrow> None
      | Some (Inl e, st') \<Rightarrow> Some (Inl e, st')
      | Some (Inr bb_file, st') \<Rightarrow>
          (let new_bb = StructUnit3 (path_join database bb_file) in
           case find is_StructUnit2 (building_blocks c) of
             None \<Rightarrow> Some (Inl StopIteration, st')
           | Some l \<Rightarrow> Some (Cage ev [new_bb, l] (topology c) (mutant_path ev st'), st')))"

definition random_lk ::
  "env \<Rightarrow> mstate \<Rightarrow> cage \<Rightarrow> string \<Rightarrow> ((exn + cage) \<times> mstate) option" where
  "random_lk ev st c database =
     (case pick_mol ev database st of
        None \<Rightarrow> None
      | Some (Inl e, st') \<Rightarrow> Some (Inl e, st')
      | Some (Inr lk_file, st') \<Rightarrow>
          (let new_lk = StructUnit2 (path_join database lk_file) in
           case find is_StructUnit3 (building_blocks c) of
             None \<Rightarrow> Some (Inl StopIteration, st')
           | Some b \<Rightarrow> Some (Cage ev [b, new_lk] (topology c) (mutant_path ev st'), st')))"

text \<open>
  \<^verbatim>\<open>random_cage_topology\<close>: \<^verbatim>\<open>tops.remove\<close> takes out the first occurrence of the
  cage's topology and raises \<^verbatim>\<open>ValueError\<close> when there is none.
\<close>

definition random_cage_topology ::
  "env \<Rightarrow> mstate \<Rightarrow> cage \<Rightarrow> string list \<Rightarrow> (exn + cage) \<times> mstate" where
  "random_cage_topology ev st c topologies =
     (if topology c \<notin> set topologies then (Inl ValueError, st)
      else
        (case random_choice ev st (remove1 (topology c) topologies) of
           (Inl e, st') \<Rightarrow> (Inl e, st')
         | (Inr topo, st') \<Rightarrow> (Cage ev (building_blocks c) topo (mutant_path ev st'), st')))"

text \<open>
  \<^verbatim>\<open>similar_bb\<close>: the first call on a cage attaches the generator; every call takes the
  next file from it, and \<^verbatim>\<open>next\<close> on an exhausted generator raises
  \<^verbatim>\<open>StopIteration\<close>.
\<close>

definition similar_bb ::
  "env \<Rightarrow> mstate \<Rightarrow> cage \<Rightarrow> string \<Rightarrow> (exn + cage) \<times> mstate" where
  "similar_bb ev st c database =
     (case (case similar_bb_mols st c of
              Some g \<Rightarrow> Inr st
            | None \<Rightarrow>
                (case find is_StructUnit3 (building_blocks c) of
                   None \<Rightarrow> Inl StopIteration
                 | Some b \<Rightarrow>
                     Inr (st\<lparr>similar_bb_mols :=
                            (similar_bb_mols st)(c \<mapsto> similar_molecules ev b database)\<rparr>))) of
        Inl e \<Rightarrow> (Inl e, st)
      | Inr st1 \<Rightarrow>
          (case similar_bb_mols st1 c of
             None \<Rightarrow> (Inl AttributeError, st1)
           | Some [] \<Rightarrow> (Inl StopIteration, st1)
           | Some (f # rest) \<Rightarrow>
               (let st2 = st1\<lparr>similar_bb_mols := (similar_bb_mols st1)(c \<mapsto> rest)\<rparr>;
                    new_bb = StructUnit3 f in
                case find is_StructUnit2 (building_blocks c) of
                  None \<Rightarrow> (Inl StopIteration, st2)
                | Some l \<Rightarrow> (Cage ev [new_bb, l] (topology c) (mutant_path ev st2), st2))))"

definition similar_lk ::
  "env \<Rightarrow> mstate \<Rightarrow> cage \<Rightarrow> string \<Rightarrow> (exn + cage) \<times> mstate" where
  "similar_lk ev st c database =
     (case (case similar_lk_mols st c of
              Some g \<Rightarrow> Inr st
            | None \<Rightarrow>
                (case find is_StructUnit2 (building_blocks c) of
                   None \<Rightarrow> Inl StopIteration
                 | Some l \<Rightarrow>
                     Inr (st\<lparr>similar_lk_mols :=
                            (similar_lk_mols st)(c \<mapsto> similar_molecules ev l database)\<rparr>))) of
        Inl e \<Rightarrow> (Inl e, st)
      | Inr st1 \<Rightarrow>
          (case similar_lk_mols st1 c of
             None \<Rightarrow> (Inl AttributeError, st1)
           | Some [] \<Rightarrow> (Inl StopIteration, st1)
           | Some (f # rest) \<Rightarrow>
               (let st2 = st1\<lparr>similar_lk_mols := (similar_lk_mols st1)(c \<mapsto> rest)\<rparr>;
                    new_lk = StructUnit2 f in
                case find is_StructUnit3 (building_blocks c) of
                  None \<Rightarrow> (Inl StopIteration, st2)
                | Some b \<Rightarrow> (Cage ev [new_lk, b] (topology c) (mutant_path ev st2), st2))))"

text \<open>
  \<^verbatim>\<open>getattr(self, func_data.name)\<close> followed by the call
  \<^verbatim>\<open>func(parent, **func_data.params)\<close>. A name that is no mutation method makes
  \<^verbatim>\<open>getattr\<close> raise \<^verbatim>\<open>AttributeError\<close> before the \<^verbatim>\<open>try\<close> block; a keyword
  the method does not take makes the call raise \<^verbatim>\<open>TypeError\<close> inside it.
\<close>

datatype mut_method = M_random_bb | M_random_lk | M_random_cage_topology | M_similar_bb | M_similar_lk

definition getattr :: "string \<Rightarrow> exn + mut_method" where
  "getattr nm =
     (if nm = ''random_bb'' then Inr M_random_bb
      else if nm = ''random_lk'' then Inr M_random_lk
      else if nm = ''random_cage_topology'' then Inr M_random_cage_topology
      else if nm = ''similar_bb'' then Inr M_similar_bb
      else if nm = ''similar_lk'' then Inr M_similar_lk
      else Inl AttributeError)"

fun call_method ::
  "mut_method \<Rightarrow> env \<Rightarrow> mstate \<Rightarrow> cage \<Rightarrow> params \<Rightarrow> ((exn + cage) \<times> mstate) option" where
  "call_method M_random_bb ev st c (Database d) = random_bb ev st c d"
| "call_method M_random_lk ev st c (Database d) = random_lk ev st c d"
| "call_method M_random_cage_topology ev st c (Topologies ts) =
     Some (random_cage_topology ev st c ts)"
| "call_method M_similar_bb ev st c (Database d) = Some (similar_bb ev st c d)"
| "call_method M_similar_lk ev st c (Database d) = Some (similar_lk ev st c d)"
| "call_method m ev st c p = Some (Inl TypeError, st)"

text \<open>
  One pass through the body of the loop for one parent. \<open>Escaped\<close>: an exception raised
  before the \<^verbatim>\<open>try\<close> block leaves \<^verbatim>\<open>__call__\<close>. \<open>Failed\<close>: the operator raised
  inside the \<^verbatim>\<open>try\<close> block. \<open>Mutant\<close>: the operator returned. \<open>None\<close>: the
  operator does not return.
\<close>

datatype outcome = Escaped exn | Failed exn string mstate | Mutant cage mstate

definition attempt :: "env \<Rightarrow> mutation \<Rightarrow> mstate \<Rightarrow> cage \<Rightarrow> outcome option" where
  "attempt ev self st parent =
     (if \<not> weights_valid self then Some (Escaped ValueError)
      else
        (case random_choice ev st (funcs self) of
           (Inl e, st1) \<Rightarrow> Some (Escaped e)
         | (Inr fd, st1) \<Rightarrow>
             (case getattr (fname fd) of
                Inl e \<Rightarrow> Some (Escaped e)
              | Inr m \<Rightarrow>
                  (case call_method m ev (st1\<lparr>n_calls := Suc (n_calls st1)\<rparr>) parent (fparams fd) of
                     None \<Rightarrow> None
                   | Some (Inl ex, st2) \<Rightarrow> Some (Failed ex (fname fd) st2)
                   | Some (Inr mutant, st2) \<Rightarrow> Some (Mutant mutant st2)))))"

text \<open>\<^verbatim>\<open>counter.update([parent])\<close> on a \<^verbatim>\<open>Counter\<close>.\<close>

definition counter_update :: "(cage \<rightharpoonup> nat) \<Rightarrow> cage \<Rightarrow> (cage \<rightharpoonup> nat)" where
  "counter_update cnt c = cnt(c \<mapsto> (case cnt c of None \<Rightarrow> 1 | Some k \<Rightarrow> Suc k))"

text \<open>
  The \<^verbatim>\<open>for\<close> loop of \<^verbatim>\<open>Mutation.__call__\<close> over the parent pool, with the members
  of \<^verbatim>\<open>mutant_pop\<close>, the count of successful mutations and the usage counter as
  accumulators. A failure is reported (\<^verbatim>\<open>MacroMolError\<close>) and the loop goes on; the
  loop breaks when the count equals \<^verbatim>\<open>self.num_mutations\<close>.
\<close>

fun mutate_loop ::
  "env \<Rightarrow> mutation \<Rightarrow> cage list \<Rightarrow> mstate \<Rightarrow> cage list \<Rightarrow> nat \<Rightarrow> (cage \<rightharpoonup> nat)
     \<Rightarrow> (exn + (cage list \<times> mstate \<times> (cage \<rightharpoonup> nat))) option" where
  "mutate_loop ev self [] st members num cnt = Some (Inr (members, st, cnt))"
| "mutate_loop ev self (parent # pool) st members num cnt =
     (case attempt ev self st parent of
        None \<Rightarrow> None
      | Some (Escaped e) \<Rightarrow> Some (Inl e)
      | Some (Failed ex nm st') \<Rightarrow>
          mutate_loop ev self pool (st'\<lparr>errors := errors st' @ [(ex, parent, nm)]\<rparr>)
            members num (counter_update cnt parent)
      | Some (Mutant mutant st') \<Rightarrow>
          (if int (Suc num) = num_mutations self
           then Some (Inr (members @ [mutant], st', counter_update cnt parent))
           else mutate_loop ev self pool st' (members @ [mutant]) (Suc num)
                  (counter_update cnt parent)))"

text \<open>The members of the population that were never selected enter the counter with 0.\<close>

fun counter_unselected :: "(cage \<rightharpoonup> nat) \<Rightarrow> cage list \<Rightarrow> (cage \<rightharpoonup> nat)" where
  "counter_unselected cnt [] = cnt"
| "counter_unselected cnt (m # ms) =
     counter_unselected (case cnt m of None \<Rightarrow> cnt(m \<mapsto> 0) | Some k \<Rightarrow> cnt) ms"

text \<open>
  \<^verbatim>\<open>Mutation.__call__\<close>. The parent pool is what \<^verbatim>\<open>population.select('mutation')\<close>
  yields (the selection is not among the sources); it is taken as a finite list.
\<close>

definition Mutation_call ::
  "env \<Rightarrow> mutation \<Rightarrow> cage list \<Rightarrow> cage list \<Rightarrow> mstate
     \<Rightarrow> (exn + (cage list \<times> mstate \<times> (cage \<rightharpoonup> nat))) option" where
  "Mutation_call ev self population parent_pool st =
     (case mutate_loop ev self parent_pool st [] 0 Map.empty of
        None \<Rightarrow> None
      | Some (Inl e) \<Rightarrow> Some (Inl e)
      | Some (Inr (members, st', cnt)) \<Rightarrow>
          Some (Inr (population_sub members population, st',
                     counter_unselected cnt population)))"

text \<open>
  Sample heaps and a sample initializer for \<^verbatim>\<open>Cached\<close>: \<open>reg_heap\<close> is the heap after one
  instance of \<open>plain_cls\<close> for \<^verbatim>\<open>a.mol\<close> was built and registered by
  \<^verbatim>\<open>update_cache\<close>.
\<close>

definition reg_heap :: "(string, string) heap" where
  "reg_heap = \<lparr>objs = [0 \<mapsto> \<lparr>okey = Some ''a.mol'', odict = [''path'' \<mapsto> ''a.mol'']\<rparr>],
     cache = [''a.mol'' \<mapsto> 0], next_addr = 1\<rparr>"

definition plain_init ::
  "string \<Rightarrow> addr \<Rightarrow> (string \<rightharpoonup> addr) \<Rightarrow> exn + ((string \<rightharpoonup> string) \<times> (string \<rightharpoonup> addr))" where
  "plain_init p a c = Inr ([''path'' \<mapsto> p], c)"

text \<open>
  Running an operator several times in a row on the same cage, as a caller that mutates
  one parent repeatedly does: the results in order, and the state left.
\<close>

fun similar_bb_times ::
  "env \<Rightarrow> mstate \<Rightarrow> cage \<Rightarrow> string \<Rightarrow> nat \<Rightarrow> (exn + cage) list \<times> mstate" where
  "similar_bb_times ev st c database 0 = ([], st)"
| "similar_bb_times ev st c database (Suc n) =
     (case similar_bb ev st c database of
        (r, st1) \<Rightarrow>
          (case similar_bb_times ev st1 c database n of (rs, st2) \<Rightarrow> (r # rs, st2)))"

fun similar_lk_times ::
  "env \<Rightarrow> mstate \<Rightarrow> cage \<Rightarrow> string \<Rightarrow> nat \<Rightarrow> (exn + cage) list \<times> mstate" where
  "similar_lk_times ev st c database 0 = ([], st)"
| "similar_lk_times ev st c database (Suc n) =
     (case similar_lk ev st c database of
        (r, st1) \<Rightarrow>
          (case similar_lk_times ev st1 c database n of (rs, st2) \<Rightarrow> (r # rs, st2)))"

text \<open>The members a run of the loop (or of the round) returned.\<close>

definition members_of ::
  "(exn + (cage list \<times> mstate \<times> (cage \<rightharpoonup> nat))) option \<Rightarrow> cage list option" where
  "members_of r = (case r of Some (Inr (ms, st, cnt)) \<Rightarrow> Some ms | _ \<Rightarrow> None)"

text \<open>A sample world: one database directory, assemblies that never raise.\<close>

definition ev0 :: env where
  "ev0 = \<lparr>listdir = (\<lambda>d. if d = ''db'' then Some [''a.mol''] else None),
     similar_molecules = (\<lambda>u d. [''c1.mol'', ''c2.mol'', ''c3.mol'']),
     assemble = (\<lambda>us t. None), rnd = (\<lambda>i. 0), cwd = ''/w''\<rparr>"

definition st0 :: mstate where
  "st0 = \<lparr>n_calls = 0, draws = 0, similar_bb_mols = Map.empty, similar_lk_mols = Map.empty,
     errors = []\<rparr>"

definition parent0 :: cage where
  "parent0 = \<lparr>building_blocks = [StructUnit3 ''db/a.mol'', StructUnit2 ''lk.mol''],
     topology = ''FourPlusSix'', prist_mol_file = ''/w/parent.mol'', fitness = Some 1\<rparr>"



definition self_similar :: mutation where
  "self_similar = \<lparr>funcs = [FunctionData ''similar_bb'' (Database ''db'')],
     weights_valid = True, num_mutations = 1\<rparr>"

text \<open>A world whose similarity search finds nothing: every \<^verbatim>\<open>similar_bb\<close> raises.\<close>

definition ev_none :: env where
  "ev_none = ev0\<lparr>similar_molecules := (\<lambda>u d. [])\<rparr>"

text \<open>An engine whose database directory does not exist: every \<^verbatim>\<open>random_bb\<close> raises.\<close>

definition self_missing :: mutation where
  "self_missing = \<lparr>funcs = [FunctionData ''random_bb'' (Database ''nodb'')],
     weights_valid = True, num_mutations = 1\<rparr>"

text \<open>A cage with the fitness of a new mutant and a structure of its own.\<close>

definition other0 :: cage where
  "other0 = \<lparr>building_blocks = [StructUnit3 ''db/b.mol'', StructUnit2 ''lk.mol''],
     topology = ''FourPlusSix'', prist_mol_file = ''/w/other.mol'', fitness = None\<rparr>"



text \<open>The cage \<^verbatim>\<open>similar_bb\<close> (\<^verbatim>\<open>similar_lk\<close>) builds from a file of the generator.\<close>

definition similar_bb_cage :: "env \<Rightarrow> mstate \<Rightarrow> cage \<Rightarrow> struct_unit \<Rightarrow> string \<Rightarrow> cage" where
  "similar_bb_cage ev st c l f =
     \<lparr>building_blocks = [StructUnit3 f, l], topology = topology c,
      prist_mol_file = mutant_path ev st, fitness = None\<rparr>"

definition similar_lk_cage :: "env \<Rightarrow> mstate \<Rightarrow> cage \<Rightarrow> struct_unit \<Rightarrow> string \<Rightarrow> cage" where
  "similar_lk_cage ev st c b f =
     \<lparr>building_blocks = [StructUnit2 f, b], topology = topology c,
      prist_mol_file = mutant_path ev st, fitness = None\<rparr>"

section \<open>Floating point numbers\<close>

text \<open>
  A numpy \<^verbatim>\<open>float64\<close> is a finite value, an infinity or NaN. The arithmetic takes the
  rounding as a parameter \<open>rd\<close>, which maps the exact result of an operation on finite
  values to the float the operation returns: \<open>Fin\<close> itself is exact arithmetic, and
  \<open>round_double\<close> below is IEEE 754 binary64 (round to nearest, ties to even). The sign
  of a zero is not kept.
\<close>

datatype fl = Fin real | PInf | NInf | NaN

fun isfinite :: "fl \<Rightarrow> bool" where
  "isfinite (Fin x) = True"
| "isfinite x = False"

fun fneg :: "fl \<Rightarrow> fl" where
  "fneg (Fin x) = Fin (- x)"
| "fneg PInf = NInf"
| "fneg NInf = PInf"
| "fneg NaN = NaN"

fun fadd :: "(real \<Rightarrow> fl) \<Rightarrow> fl \<Rightarrow> fl \<Rightarrow> fl" where
  "fadd rd (Fin x) (Fin y) = rd (x + y)"
| "fadd rd NaN y = NaN"
| "fadd rd x NaN = NaN"
| "fadd rd PInf NInf = NaN"
| "fadd rd NInf PInf = NaN"
| "fadd rd PInf y = PInf"
| "fadd rd NInf y = NInf"
| "fadd rd x PInf = PInf"
| "fadd rd x NInf = NInf"

text \<open>The sign of a float, for products and quotients with an infinity.\<close>

fun fsign :: "fl \<Rightarrow> int" where
  "fsign (Fin x) = (if x < 0 then - 1 else if x = 0 then 0 else 1)"
| "fsign PInf = 1"
| "fsign NInf = - 1"
| "fsign NaN = 0"

definition signed_inf :: "int \<Rightarrow> fl" where
  "signed_inf s = (if s = 0 then NaN else if 0 < s then PInf else NInf)"

fun fmul :: "(real \<Rightarrow> fl) \<Rightarrow> fl \<Rightarrow> fl \<Rightarrow> fl" where
  "fmul rd (Fin x) (Fin y) = rd (x * y)"
| "fmul rd NaN y = NaN"
| "fmul rd x NaN = NaN"
| "fmul rd x y = signed_inf (fsign x * fsign y)"



fun fabs :: "fl \<Rightarrow> fl" where
  "fabs (Fin x) = Fin \<bar>x\<bar>"
| "fabs NInf = PInf"
| "fabs x = x"

text \<open>Comparisons: every comparison with NaN is false.\<close>

fun fless :: "fl \<Rightarrow> fl \<Rightarrow> bool" where
  "fless (Fin x) (Fin y) = (x < y)"
| "fless NaN y = False"
| "fless x NaN = False"
| "fless x NInf = False"
| "fless PInf y = False"
| "fless x y = True"

definition fle :: "fl \<Rightarrow> fl \<Rightarrow> bool" where
  "fle x y \<longleftrightarrow> x \<noteq> NaN \<and> y \<noteq> NaN \<and> (fless x y \<or> x = y)"

text \<open>\<^verbatim>\<open>np.minimum\<close> and \<^verbatim>\<open>np.maximum\<close>, which reductions use: NaN propagates.\<close>

definition fmin :: "fl \<Rightarrow> fl \<Rightarrow> fl" where
  "fmin x y = (if x = NaN \<or> y = NaN then NaN else if fless y x then y else x)"

definition fmax :: "fl \<Rightarrow> fl \<Rightarrow> fl" where
  "fmax x y = (if x = NaN \<or> y = NaN then NaN else if fless x y then y else x)"

text \<open>
  IEEE 754 binary64 rounding of a real: \<open>ilog2 x\<close> is \<open>\<lfloor>log\<^sub>2 \<bar>x\<bar>\<rfloor>\<close>, the spacing of the
  doubles around \<open>x\<close> is \<open>2\<^bsup>e\<^esup>\<close> with \<open>e = max (ilog2 x) (-1022) - 52\<close>, and a result of
  magnitude \<open>2\<^bsup>1024\<^esup>\<close> or more overflows to an infinity.
\<close>

definition ilog2 :: "real \<Rightarrow> int" where
  "ilog2 x = (if 1 \<le> \<bar>x\<bar> then bitlen \<lfloor>\<bar>x\<bar>\<rfloor> - 1 else - bitlen (\<lceil>1 / \<bar>x\<bar>\<rceil> - 1))"

definition round_half_even :: "real \<Rightarrow> int" where
  "round_half_even x =
     (let f = \<lfloor>x\<rfloor>; d = x - of_int f in
      if d < 1 / 2 then f else if 1 / 2 < d then f + 1 else if even f then f else f + 1)"

definition pow2 :: "int \<Rightarrow> real" where
  "pow2 e = (if 0 \<le> e then 2 ^ nat e else 1 / 2 ^ nat (- e))"

definition round_double :: "real \<Rightarrow> fl" where
  "round_double x =
     (if x = 0 then Fin 0
      else
        (let e = max (ilog2 x) (- 1022) - 52;
             y = of_int (round_half_even (x / pow2 e)) * pow2 e in
         if 2 ^ 1024 \<le> \<bar>y\<bar> then (if 0 < x then PInf else NInf) else Fin y))"

section \<open>Molecules (\<^verbatim>\<open>stk/molecular/molecules/molecule.py\<close>)\<close>

type_synonym vec3 = "fl \<times> fl \<times> fl"

type_synonym mat3 = "vec3 \<times> vec3 \<times> vec3"

text \<open>
  An atom: the name of its class (the element symbol), its mass and its charge. A
  conformer is the position matrix, one position per atom in the order of the atoms (the
  columns of the stored \<open>(3, n)\<close> array).
\<close>

record atom =
  element :: string
  mass :: fl
  charge :: int

record bond =
  atom1 :: nat
  atom2 :: nat
  bond_order :: nat

record molecule =
  atoms :: "atom list"
  bonds :: "bond list"
  conformers :: "vec3 list list"

text \<open>
  Python indexing of a list (and numpy indexing along an axis) by an integer: a negative
  index counts from the end, an index out of range raises \<^verbatim>\<open>IndexError\<close>.
\<close>

definition py_index :: "'a list \<Rightarrow> int \<Rightarrow> exn + 'a" where
  "py_index xs i =
     (let n = int (length xs); j = (if i < 0 then n + i else i) in
      if 0 \<le> j \<and> j < n then Inr (xs ! nat j) else Inl IndexError)"

definition py_set_index :: "'a list \<Rightarrow> int \<Rightarrow> 'a \<Rightarrow> exn + 'a list" where
  "py_set_index xs i v =
     (let n = int (length xs); j = (if i < 0 then n + i else i) in
      if 0 \<le> j \<and> j < n then Inr (xs[nat j := v]) else Inl IndexError)"



definition vadd :: "(real \<Rightarrow> fl) \<Rightarrow> vec3 \<Rightarrow> vec3 \<Rightarrow> vec3" where
  "vadd rd p q =
     (case p of (x, y, z) \<Rightarrow> case q of (a, b, c) \<Rightarrow> (fadd rd x a, fadd rd y b, fadd rd z c))"

definition vneg :: "vec3 \<Rightarrow> vec3" where
  "vneg p = (case p of (x, y, z) \<Rightarrow> (fneg x, fneg y, fneg z))"

text \<open>\<^verbatim>\<open>np.dot\<close> of two vectors and of a matrix (given by its rows) with a vector.\<close>

definition vdot :: "(real \<Rightarrow> fl) \<Rightarrow> vec3 \<Rightarrow> vec3 \<Rightarrow> fl" where
  "vdot rd p q =
     (case p of (x, y, z) \<Rightarrow> case q of (a, b, c) \<Rightarrow>
        fadd rd (fadd rd (fmul rd x a) (fmul rd y b)) (fmul rd z c))"

definition mat_vec :: "(real \<Rightarrow> fl) \<Rightarrow> mat3 \<Rightarrow> vec3 \<Rightarrow> vec3" where
  "mat_vec rd mt v = (case mt of (r0, r1, r2) \<Rightarrow> (vdot rd r0 v, vdot rd r1 v, vdot rd r2 v))"

text \<open>\<^verbatim>\<open>Molecule.apply_displacement\<close>\<close>

definition apply_displacement ::
  "(real \<Rightarrow> fl) \<Rightarrow> molecule \<Rightarrow> vec3 \<Rightarrow> int \<Rightarrow> exn + molecule" where
  "apply_displacement rd m displacement conformer_id =
     (case py_index (conformers m) conformer_id of
        Inl e \<Rightarrow> Inl e
      | Inr conf \<Rightarrow>
          (case py_set_index (conformers m) conformer_id
                  (map (\<lambda>p. vadd rd p displacement) conf) of
             Inl e \<Rightarrow> Inl e
           | Inr cs \<Rightarrow> Inr (m\<lparr>conformers := cs\<rparr>)))"

text \<open>
  The functions of \<^verbatim>\<open>stk.utilities\<close> that the rotation uses are not among the sources
  and are parameters here.
\<close>

record utilities =
  rotation_matrix :: "vec3 \<Rightarrow> vec3 \<Rightarrow> mat3"
  rotation_matrix_arbitrary_axis :: "fl \<Rightarrow> vec3 \<Rightarrow> mat3"
  vector_theta :: "vec3 \<Rightarrow> vec3 \<Rightarrow> fl"

text \<open>
  \<^verbatim>\<open>np.allclose(v, [0, 0, 0], 1e-8)\<close>: the third argument is \<^verbatim>\<open>rtol\<close>, \<^verbatim>\<open>atol\<close>
  keeps its default \<^verbatim>\<open>1e-8\<close>, so each component has to be finite with
  \<open>\<bar>x\<bar> \<le> atol + rtol \<sqdot> 0\<close>.
\<close>

definition close_to_zero :: "(real \<Rightarrow> fl) \<Rightarrow> fl \<Rightarrow> bool" where
  "close_to_zero rd x \<longleftrightarrow>
     isfinite x \<and>
     fle (fabs (fadd rd x (fneg (Fin 0))))
         (fadd rd (rd (1 / 10 ^ 8)) (fmul rd (rd (1 / 10 ^ 8)) (fabs (Fin 0))))"

definition allclose_zero :: "(real \<Rightarrow> fl) \<Rightarrow> vec3 \<Rightarrow> bool" where
  "allclose_zero rd v \<longleftrightarrow>
     (case v of (x, y, z) \<Rightarrow> close_to_zero rd x \<and> close_to_zero rd y \<and> close_to_zero rd z)"

definition z_axis :: vec3 where
  "z_axis = (Fin 0, Fin 0, Fin 1)"

text \<open>
  A vector taken into the frame in which the rotation axis is the z axis, with its z
  component dropped: \<^verbatim>\<open>t = np.dot(rotmat, v)\<close> followed by
  \<^verbatim>\<open>np.array([t[0], t[1], 0])\<close>.
\<close>

definition projected :: "(real \<Rightarrow> fl) \<Rightarrow> mat3 \<Rightarrow> vec3 \<Rightarrow> vec3" where
  "projected rd rotmat v = (case mat_vec rd rotmat v of (t0, t1, t2) \<Rightarrow> (t0, t1, Fin 0))"

text \<open>\<^verbatim>\<open>Molecule.apply_rotation_to_minimize_theta\<close>\<close>

definition apply_rotation_to_minimize_theta ::
  "(real \<Rightarrow> fl) \<Rightarrow> utilities \<Rightarrow> molecule \<Rightarrow> vec3 \<Rightarrow> vec3 \<Rightarrow> vec3 \<Rightarrow> vec3 \<Rightarrow> int
     \<Rightarrow> exn + molecule" where
  "apply_rotation_to_minimize_theta rd ut m start target axis origin conformer_id =
     (case start of (s0, s1, s2) \<Rightarrow>
      if \<not> (isfinite s0 \<and> isfinite s1 \<and> isfinite s2) then Inr m
      else
        (case apply_displacement rd m (vneg origin) conformer_id of
           Inl e \<Rightarrow> Inl e
         | Inr m1 \<Rightarrow>
             (let rotmat = rotation_matrix ut axis z_axis;
                  tstart = projected rd rotmat start in
              if allclose_zero rd tstart then apply_displacement rd m1 origin conformer_id
              else
                (let tend = projected rd rotmat target;
                     angle = vector_theta ut tstart tend;
                     r1 = rotation_matrix_arbitrary_axis ut angle z_axis;
                     t1 = vector_theta ut (mat_vec rd r1 tstart) tend;
                     r2 = rotation_matrix_arbitrary_axis ut (fneg angle) z_axis;
                     t2 = vector_theta ut (mat_vec rd r2 tstart) tend;
                     angle' = (if fless t2 t1 then fmul rd angle (Fin (- 1)) else angle);
                     rot_mat = rotation_matrix_arbitrary_axis ut angle' axis in
                 case py_index (conformers m1) conformer_id of
                   Inl e \<Rightarrow> Inl e
                 | Inr conf \<Rightarrow>
                     (case py_set_index (conformers m1) conformer_id
                             (map (mat_vec rd rot_mat) conf) of
                        Inl e \<Rightarrow> Inl e
                      | Inr cs \<Rightarrow>
                          apply_displacement rd (m1\<lparr>conformers := cs\<rparr>) origin
                            conformer_id)))))"

subsection \<open>Geometry queries\<close>





















definition finite_vec :: "vec3 \<Rightarrow> bool" where
  "finite_vec p \<longleftrightarrow> isfinite (fst p) \<and> isfinite (fst (snd p)) \<and> isfinite (snd (snd p))"


subsection \<open>Updating the structure from a file\<close>

text \<open>\<^verbatim>\<open>Molecule.set_position_matrix\<close>: a conformer id \<^verbatim>\<open>None\<close> appends a conformer.\<close>

definition set_position_matrix :: "molecule \<Rightarrow> vec3 list \<Rightarrow> int option \<Rightarrow> exn + molecule" where
  "set_position_matrix m position_matrix conformer_id =
     (case conformer_id of
        None \<Rightarrow> Inr (m\<lparr>conformers := conformers m @ [position_matrix]\<rparr>)
      | Some i \<Rightarrow>
          (case py_set_index (conformers m) i position_matrix of
             Inl e \<Rightarrow> Inl e
           | Inr cs \<Rightarrow> Inr (m\<lparr>conformers := cs\<rparr>)))"

text \<open>
  What \<^verbatim>\<open>rdkit\<close> read from a structure file: the elements of the atoms and the positions
  of the conformer.
\<close>

record rdkit_mol =
  mol_elements :: "string list"
  mol_positions :: "vec3 list"

text \<open>
  The file system and the parsers the update relies on: the lines of a text file
  (\<open>None\<close>: no such file), \<^verbatim>\<open>rdkit.MolFromMolFile\<close> (\<open>None\<close>: not parsable),
  \<^verbatim>\<open>mol_from_mae_file\<close>, Python's \<^verbatim>\<open>int\<close> and \<^verbatim>\<open>float\<close> on a string (\<open>None\<close>:
  \<^verbatim>\<open>ValueError\<close>) and the \<^verbatim>\<open>periodic_table\<close> of \<^verbatim>\<open>stk.utilities\<close>.
\<close>

record files =
  readlines :: "string \<Rightarrow> string list option"
  MolFromMolFile :: "string \<Rightarrow> rdkit_mol option"
  mol_from_mae_file :: "string \<Rightarrow> exn + rdkit_mol"
  py_int :: "string \<Rightarrow> int option"
  py_float :: "string \<Rightarrow> fl option"
  periodic_table :: "int \<rightharpoonup> string"

text \<open>\<^verbatim>\<open>Molecule.update_from_rdkit_mol\<close>\<close>

definition update_from_rdkit_mol :: "molecule \<Rightarrow> rdkit_mol \<Rightarrow> int option \<Rightarrow> exn + molecule" where
  "update_from_rdkit_mol m mol conformer_id =
     set_position_matrix m (mol_positions mol) conformer_id"

text \<open>
  \<^verbatim>\<open>Molecule._update_from_mol\<close>: \<^verbatim>\<open>remake\<close> rebuilds the molecule that was read and
  fails on \<^verbatim>\<open>None\<close>.
\<close>

definition update_from_mol :: "files \<Rightarrow> molecule \<Rightarrow> string \<Rightarrow> int option \<Rightarrow> exn + molecule" where
  "update_from_mol fs m path conformer_id =
     (case MolFromMolFile fs path of
        None \<Rightarrow> Inl AttributeError
      | Some mol \<Rightarrow> update_from_rdkit_mol m mol conformer_id)"

text \<open>\<^verbatim>\<open>Molecule._update_from_mae\<close>\<close>

definition update_from_mae :: "files \<Rightarrow> molecule \<Rightarrow> string \<Rightarrow> int option \<Rightarrow> exn + molecule" where
  "update_from_mae fs m path conformer_id =
     (case mol_from_mae_file fs path of
        Inl e \<Rightarrow> Inl e
      | Inr mol \<Rightarrow> update_from_rdkit_mol m mol conformer_id)"

text \<open>\<^verbatim>\<open>str.split()\<close>: the words between runs of whitespace.\<close>

definition is_space :: "char \<Rightarrow> bool" where
  "is_space c \<longleftrightarrow> c \<in> set [CHR '' '', CHR 0x09, CHR 0x0A, CHR 0x0B, CHR 0x0C, CHR 0x0D]"

fun split_words :: "string \<Rightarrow> string \<Rightarrow> string list" where
  "split_words w [] = (if w = [] then [] else [w])"
| "split_words w (c # cs) =
     (if is_space c then (if w = [] then split_words [] cs else w # split_words [] cs)
      else split_words (w @ [c]) cs)"

definition py_split :: "string \<Rightarrow> string list" where
  "py_split s = split_words [] s"

text \<open>\<^verbatim>\<open>str.isnumeric()\<close> on ASCII text: not empty and digits only.\<close>

definition isnumeric :: "string \<Rightarrow> bool" where
  "isnumeric s \<longleftrightarrow> s \<noteq> [] \<and> list_all (\<lambda>c. c \<in> set ''0123456789'') s"

text \<open>
  The element of a line, looked up in the periodic table when it is a number
  (\<^verbatim>\<open>KeyError\<close> when the table has no such entry).
\<close>

definition element_of :: "files \<Rightarrow> string \<Rightarrow> exn + string" where
  "element_of fs el =
     (if isnumeric el then
        (case py_int fs el of
           None \<Rightarrow> Inl ValueError
         | Some z \<Rightarrow> (case periodic_table fs z of None \<Rightarrow> Inl KeyError | Some s \<Rightarrow> Inr s))
      else Inr el)"

text \<open>
  \<^verbatim>\<open>[float(i) for i in coords]\<close>, as one position; a line that does not hold exactly
  three coordinates gives no \<open>(n, 3)\<close> matrix and is \<^verbatim>\<open>ValueError\<close> here.
\<close>

definition parse_coords :: "files \<Rightarrow> (fl \<Rightarrow> fl) \<Rightarrow> string list \<Rightarrow> exn + vec3" where
  "parse_coords fs scale coords =
     (case map (py_float fs) coords of
        [Some x, Some y, Some z] \<Rightarrow> Inr (scale x, scale y, scale z)
      | _ \<Rightarrow> Inl ValueError)"

text \<open>
  The loop over the atom lines of an \<^verbatim>\<open>.xyz\<close> file. \<open>i\<close> is the index of the line:
  the element of line \<open>i\<close> must be the class name of atom \<open>i\<close>
  (\<^verbatim>\<open>self.atoms[i]\<close> raises \<^verbatim>\<open>IndexError\<close> when there is no such atom).
\<close>

fun xyz_lines :: "files \<Rightarrow> molecule \<Rightarrow> nat \<Rightarrow> string list \<Rightarrow> exn + vec3 list" where
  "xyz_lines fs m i [] = Inr []"
| "xyz_lines fs m i (line # rest) =
     (case py_split line of
        [] \<Rightarrow> Inl ValueError
      | el # coords \<Rightarrow>
          (case element_of fs el of
             Inl e \<Rightarrow> Inl e
           | Inr el' \<Rightarrow>
               (if length (atoms m) \<le> i then Inl IndexError
                else if el' \<noteq> element (atoms m ! i) then Inl RuntimeError
                else
                  (case parse_coords fs (\<lambda>x. x) coords of
                     Inl e \<Rightarrow> Inl e
                   | Inr p \<Rightarrow>
                       (case xyz_lines fs m (Suc i) rest of
                          Inl e \<Rightarrow> Inl e
                        | Inr ps \<Rightarrow> Inr (p # ps))))))"

text \<open>
  \<^verbatim>\<open>Molecule._update_from_xyz\<close>. After the loop \<^verbatim>\<open>i\<close> is the index of the last line;
  with no atom line at all it is unbound and reading it raises \<^verbatim>\<open>NameError\<close>.
\<close>

definition update_from_xyz :: "files \<Rightarrow> molecule \<Rightarrow> string \<Rightarrow> int option \<Rightarrow> exn + molecule" where
  "update_from_xyz fs m path conformer_id =
     (case readlines fs path of
        None \<Rightarrow> Inl FileNotFoundError
      | Some [] \<Rightarrow> Inl ValueError
      | Some [l] \<Rightarrow> Inl ValueError
      | Some (atom_count # comment # content) \<Rightarrow>
          (case py_int fs atom_count of
             None \<Rightarrow> Inl ValueError
           | Some n \<Rightarrow>
               if n \<noteq> int (length (atoms m)) then Inl RuntimeError
               else
                 (case xyz_lines fs m 0 content of
                    Inl e \<Rightarrow> Inl e
                  | Inr new_coords \<Rightarrow>
                      if content = [] then Inl NameError
                      else if length content \<noteq> length (atoms m) then Inl RuntimeError
                      else set_position_matrix m new_coords conformer_id)))"

text \<open>
  \<^verbatim>\<open>Molecule._update_from_turbomole\<close>: the element is the last word of a line, the first
  and the last line of the file are dropped, and the coordinates are scaled from Bohr.
\<close>

fun coord_lines ::
  "(real \<Rightarrow> fl) \<Rightarrow> files \<Rightarrow> molecule \<Rightarrow> nat \<Rightarrow> string list \<Rightarrow> exn + vec3 list" where
  "coord_lines rd fs m i [] = Inr []"
| "coord_lines rd fs m i (line # rest) =
     (case rev (py_split line) of
        [] \<Rightarrow> Inl ValueError
      | el # rcoords \<Rightarrow>
          (case element_of fs el of
             Inl e \<Rightarrow> Inl e
           | Inr el' \<Rightarrow>
               (if length (atoms m) \<le> i then Inl IndexError
                else if el' \<noteq> element (atoms m ! i) then Inl RuntimeError
                else
                  (case parse_coords fs (\<lambda>x. fmul rd x (rd (5291772105638411 / 10 ^ 16)))
                          (rev rcoords) of
                     Inl e \<Rightarrow> Inl e
                   | Inr p \<Rightarrow>
                       (case coord_lines rd fs m (Suc i) rest of
                          Inl e \<Rightarrow> Inl e
                        | Inr ps \<Rightarrow> Inr (p # ps))))))"

definition update_from_turbomole ::
  "(real \<Rightarrow> fl) \<Rightarrow> files \<Rightarrow> molecule \<Rightarrow> string \<Rightarrow> int option \<Rightarrow> exn + molecule" where
  "update_from_turbomole rd fs m path conformer_id =
     (case readlines fs path of
        None \<Rightarrow> Inl FileNotFoundError
      | Some [] \<Rightarrow> Inl ValueError
      | Some [l] \<Rightarrow> Inl ValueError
      | Some (first # others) \<Rightarrow>
          (let content = butlast others in
           if length content \<noteq> length (atoms m) then Inl RuntimeError
           else
             (case coord_lines rd fs m 0 content of
                Inl e \<Rightarrow> Inl e
              | Inr new_coords \<Rightarrow>
                  if content = [] then Inl NameError
                  else set_position_matrix m new_coords conformer_id)))"

text \<open>
  \<^verbatim>\<open>os.path.splitext\<close> (POSIX): the extension starts at the last dot of the last
  component, unless only dots stand before it in that component.
\<close>

definition after_last :: "char \<Rightarrow> string \<Rightarrow> string" where
  "after_last c s = rev (takeWhile (\<lambda>x. x \<noteq> c) (rev s))"

definition upto_last :: "char \<Rightarrow> string \<Rightarrow> string" where
  "upto_last c s = rev (dropWhile (\<lambda>x. x \<noteq> c) (rev s))"

definition splitext :: "string \<Rightarrow> string \<times> string" where
  "splitext p =
     (let dir = upto_last CHR ''/'' p;
          fn = after_last CHR ''/'' p;
          stem_dot = upto_last CHR ''.'' fn in
      if stem_dot = [] \<or> list_all (\<lambda>c. c = CHR ''.'') (butlast stem_dot) then (p, [])
      else (dir @ butlast stem_dot, CHR ''.'' # after_last CHR ''.'' fn))"

text \<open>
  \<^verbatim>\<open>Molecule.update_from_file\<close>: the extension selects the update function
  (\<^verbatim>\<open>KeyError\<close> for any other extension).
\<close>

definition update_from_file ::
  "(real \<Rightarrow> fl) \<Rightarrow> files \<Rightarrow> molecule \<Rightarrow> string \<Rightarrow> int option \<Rightarrow> exn + molecule" where
  "update_from_file rd fs m path conformer_id =
     (let ext = snd (splitext path) in
      if ext = ''.mol'' \<or> ext = ''.sdf'' then update_from_mol fs m path conformer_id
      else if ext = ''.mae'' then update_from_mae fs m path conformer_id
      else if ext = ''.xyz'' then update_from_xyz fs m path conformer_id
      else if ext = ''.coord'' then update_from_turbomole rd fs m path conformer_id
      else Inl KeyError)"

section \<open>Structural units (\<^verbatim>\<open>classes/molecular.py\<close>)\<close>

record FGInfo =
  fg_name :: string
  smarts_start :: string
  smarts_end :: string
  target_atomic_num :: nat
  heavy_atomic_num :: nat
  target_symbol :: string
  heavy_symbol :: string

definition mkFG :: "string \<Rightarrow> string \<Rightarrow> string \<Rightarrow> nat \<Rightarrow> nat \<Rightarrow> string \<Rightarrow> string \<Rightarrow> FGInfo" where
  "mkFG n s e t h ts hs =
     \<lparr>fg_name = n, smarts_start = s, smarts_end = e, target_atomic_num = t,
      heavy_atomic_num = h, target_symbol = ts, heavy_symbol = hs\<rparr>"

text \<open>\<^verbatim>\<open>FGInfo.functional_group_list\<close>, in the order of the source.\<close>

definition functional_group_list :: "FGInfo list" where
  "functional_group_list =
     [mkFG ''aldehyde'' ''C(=O)[H]'' ''[Y]'' 6 39 ''C'' ''Y'',
      mkFG ''carboxylic acid'' ''C(=O)O[H]'' ''[Zr]=O'' 6 40 ''C'' ''Zr'',
      mkFG ''amide'' ''C(=O)N([H])[H]'' ''[Nb]=O'' 6 41 ''C'' ''Nb'',
      mkFG ''thioacid'' ''C(=O)S[H]'' ''[Mo]=O'' 6 42 ''C'' ''Mo'',
      mkFG ''alcohol'' ''O[H]'' ''[Tc]'' 8 43 ''O'' ''Tc'',
      mkFG ''thiol'' ''[S][H]'' ''[Ru]'' 16 44 ''S'' ''Ru'',
      mkFG ''amine'' ''[N]([H])[H]'' ''[Rh]'' 7 45 ''N'' ''Rh'',
      mkFG ''nitroso'' ''N=O'' ''[Pd]'' 7 46 ''N'' ''Pd'',
      mkFG ''boronic acid'' ''[B](O[H])O[H]'' ''[Ag]'' 5 47 ''B'' ''Ag'']"

text \<open>Python's \<^verbatim>\<open>a in b\<close> on strings: \<open>a\<close> occurs in \<open>b\<close> as a contiguous part.\<close>

fun py_in :: "string \<Rightarrow> string \<Rightarrow> bool" where
  "py_in a [] = (a = [])"
| "py_in a (c # cs) = (prefix a (c # cs) \<or> py_in a cs)"

text \<open>
  The calls into \<^verbatim>\<open>rdkit\<close>, over an uninterpreted type of rdkit molecules:
  \<^verbatim>\<open>chem.MolFromMolFile\<close> (\<open>None\<close> when the file cannot be parsed),
  \<^verbatim>\<open>chem.MolToSmiles\<close>, and \<^verbatim>\<open>ac.ReplaceSubstructs\<close> on the two SMARTS patterns.
\<close>

record 'mol chem =
  chem_MolFromMolFile :: "string \<Rightarrow> 'mol option"
  chem_MolToSmiles :: "'mol \<Rightarrow> string"
  ReplaceSubstructs :: "'mol \<Rightarrow> string \<Rightarrow> string \<Rightarrow> 'mol list"

record 'mol StructUnit =
  su_prist_mol_file :: string
  prist_mol :: 'mol
  prist_smiles :: string
  func_grp :: "FGInfo option"
  heavy_mol :: 'mol
  heavy_mol_file :: string
  heavy_smiles :: string

text \<open>
  \<^verbatim>\<open>'_'.join\<close> of the split file name with \<^verbatim>\<open>HEAVY\<close> and the name of the functional
  group inserted.
\<close>

definition heavy_file_name :: "string \<Rightarrow> string \<Rightarrow> string" where
  "heavy_file_name path nm =
     (case splitext path of (stem, ext) \<Rightarrow> stem @ ''_HEAVY_'' @ nm @ ''_'' @ ext)"

text \<open>
  \<^verbatim>\<open>StructUnit._make_atoms_heavy_in_heavy\<close>: reading \<^verbatim>\<open>self.func_grp.smarts_start\<close>
  raises \<^verbatim>\<open>AttributeError\<close> when \<^verbatim>\<open>func_grp\<close> is \<^verbatim>\<open>None\<close>.
\<close>

definition make_atoms_heavy_in_heavy :: "'mol chem \<Rightarrow> 'mol \<Rightarrow> FGInfo option \<Rightarrow> exn + 'mol" where
  "make_atoms_heavy_in_heavy ch pm fg =
     (case fg of
        None \<Rightarrow> Inl AttributeError
      | Some g \<Rightarrow>
          (case ReplaceSubstructs ch pm (smarts_start g) (smarts_end g) of
             [] \<Rightarrow> Inl IndexError
           | r # rms \<Rightarrow> Inr r))"

text \<open>
  \<^verbatim>\<open>StructUnit.__init__\<close> with \<^verbatim>\<open>_generate_heavy_attrs\<close>. The result carries the
  file written by \<^verbatim>\<open>chem.MolToMolFile\<close> as its \<open>heavy_mol_file\<close>.
\<close>

definition StructUnit_init :: "'mol chem \<Rightarrow> string \<Rightarrow> exn + 'mol StructUnit" where
  "StructUnit_init ch path =
     (case chem_MolFromMolFile ch path of
        None \<Rightarrow> Inl TypeError
      | Some pm \<Rightarrow>
          (let smiles = chem_MolToSmiles ch pm;
               fg = find (\<lambda>x. py_in (fg_name x) path) functional_group_list in
           case make_atoms_heavy_in_heavy ch pm fg of
             Inl e \<Rightarrow> Inl e
           | Inr hm \<Rightarrow>
               (case fg of
                  None \<Rightarrow> Inl AttributeError
                | Some g \<Rightarrow>
                    Inr \<lparr>su_prist_mol_file = path, prist_mol = pm, prist_smiles = smiles,
                         func_grp = fg, heavy_mol = hm,
                         heavy_mol_file = heavy_file_name path (fg_name g),
                         heavy_smiles = chem_MolToSmiles ch hm\<rparr>)))"

text \<open>
  A sample \<^verbatim>\<open>rdkit\<close>: molecules are SMILES strings, every file holds \<^verbatim>\<open>NCCN\<close>, and a
  substitution marks the molecule with the replacement pattern.
\<close>

definition chem0 :: "string chem" where
  "chem0 = \<lparr>chem_MolFromMolFile = (\<lambda>p. Some ''NCCN''), chem_MolToSmiles = (\<lambda>m. m),
     ReplaceSubstructs = (\<lambda>m s e. [m @ ''.'' @ e])\<rparr>"

section \<open>Sample molecules and files\<close>

text \<open>Exact arithmetic, and the identity rotation for an axis that is the z axis already.\<close>

definition exact :: "real \<Rightarrow> fl" where
  "exact x = Fin x"

definition identity :: mat3 where
  "identity = ((Fin 1, Fin 0, Fin 0), (Fin 0, Fin 1, Fin 0), (Fin 0, Fin 0, Fin 1))"

definition ut0 :: utilities where
  "ut0 = \<lparr>rotation_matrix = (\<lambda>a b. identity),
     rotation_matrix_arbitrary_axis = (\<lambda>t a. identity),
     vector_theta = (\<lambda>a b. Fin 0)\<rparr>"

definition carbon :: atom where
  "carbon = \<lparr>element = ''C'', mass = Fin 12, charge = 0\<rparr>"


text \<open>One atom a little off the origin.\<close>

definition tiny :: molecule where
  "tiny = \<lparr>atoms = [carbon], bonds = [],
     conformers = [[(Fin (1 / 2 ^ 60), Fin 0, Fin 0)]]\<rparr>"

text \<open>
  A file system with one \<^verbatim>\<open>.mol\<close> file of two hydrogen atoms and one \<^verbatim>\<open>.xyz\<close> file
  of one carbon atom.
\<close>

definition fs0 :: files where
  "fs0 = \<lparr>readlines = (\<lambda>p. if p = ''c.xyz'' then Some [''1'', '''', ''C 1 2 3''] else None),
     MolFromMolFile = (\<lambda>p. if p = ''h2.mol''
        then Some \<lparr>mol_elements = [''H'', ''H''],
                   mol_positions = [(Fin 0, Fin 0, Fin 0), (Fin 1, Fin 0, Fin 0)]\<rparr>
        else None),
     mol_from_mae_file = (\<lambda>p. Inl FileNotFoundError),
     py_int = (\<lambda>s. if s = ''1'' then Some 1 else None),
     py_float = (\<lambda>s. if s = ''1'' then Some (Fin 1) else if s = ''2'' then Some (Fin 2)
        else if s = ''3'' then Some (Fin 3) else None),
     periodic_table = Map.empty\<rparr>"

section \<open>The identity cache: theorems\<close>

lemma type_call_fresh:
  "type_call ini args h = Inr (a, h') \<Longrightarrow>
     a = next_addr h \<and> next_addr h' = Suc a \<and>
     (\<exists>d c'. ini args a (cache h) = Inr (d, c') \<and>
        objs h' = (objs h)(a \<mapsto> \<lparr>okey = None, odict = d\<rparr>) \<and> cache h' = c')"
  by (auto simp: type_call_def Let_def split: sum.splits prod.splits)

lemma Cached_call_hit:
  assumes "use_cache c args" and "get_key c args = Inr k" and "cache h k = Some a"
  shows "Cached_call c args h = Inr (a, h)"
  using assms by (simp add: Cached_call_def)

lemma Cached_call_no_cache:
  assumes u: "\<not> use_cache c args" and k: "get_key c args = Inr k" and wf: "wf_heap h"
    and r: "Cached_call c args h = Inr (a, h')"
  shows "a = next_addr h \<and> a \<notin> dom (objs h) \<and> a \<notin> ran (cache h)
          \<and> (\<exists>d. objs h' a = Some \<lparr>okey = Some k, odict = d\<rparr>)
          \<and> (\<forall>b. b \<noteq> a \<longrightarrow> objs h' b = objs h b)"
proof -
  from u k r obtain h1 where t: "type_call (init c) args h = Inr (a, h1)"
    and h': "h' = set_key a k h1"
    by (auto simp: Cached_call_def split: sum.splits)
  from type_call_fresh[OF t] obtain d where
    a: "a = next_addr h" and o: "objs h1 = (objs h)(a \<mapsto> \<lparr>okey = None, odict = d\<rparr>)"
    by blast
  have nd: "a \<notin> dom (objs h)" using wf a by (auto simp: wf_heap_def)
  have nr: "a \<notin> ran (cache h)" using wf nd by (auto simp: wf_heap_def)
  have "objs h' a = Some \<lparr>okey = Some k, odict = d\<rparr>"
    using h' o by (simp add: set_key_def)
  moreover have "\<forall>b. b \<noteq> a \<longrightarrow> objs h' b = objs h b"
    using h' o by (simp add: set_key_def)
  ultimately show ?thesis
    using a nd nr by blast
qed

lemma Cached_old_call_again:
  "Cached_old_call ini args h = Inr (a, h') \<Longrightarrow> Cached_old_call ini args h' = Inr (a, h')"
  by (auto simp: Cached_old_call_def split: option.splits sum.splits)

lemma update_cache_registers:
  assumes "objs h a = Some ob" and "okey ob = Some k" and "cache h k = None"
  shows "update_cache a h = Inr (h\<lparr>cache := (cache h)(k \<mapsto> a)\<rparr>)"
  using assms by (simp add: update_cache_def)

text \<open>
  Claim C1, as the code has it. (1) A construction through \<^verbatim>\<open>_Cached\<close> with
  \<^verbatim>\<open>use_cache\<close> true whose key is in the class cache returns the cached instance and
  leaves the heap as it was: no instance is built and \<^verbatim>\<open>__init__\<close> does not run.
  (2) With \<^verbatim>\<open>use_cache\<close> false the cache is not looked at: the instance returned is
  a new one, different from every instance of the heap and of the cache, it carries the
  key of the arguments, and no other instance changes. (3) Under the metaclass
  \<^verbatim>\<open>Cached\<close>, constructing again with the same arguments returns the instance of the
  first construction. Whether a second construction through \<^verbatim>\<open>_Cached\<close> finds the
  first instance depends on something else having stored it (\<^verbatim>\<open>update_cache\<close>, or
  the initializer): \<^verbatim>\<open>_Cached.__call__\<close> stores nothing.
\<close>

theorem C1_cached_construction:
  "(use_cache c args \<and> get_key c args = Inr k \<and> cache h k = Some a
      \<longrightarrow> Cached_call c args h = Inr (a, h))
   \<and> (\<not> use_cache c args \<and> get_key c args = Inr k \<and> wf_heap h
        \<and> Cached_call c args h = Inr (a, h')
      \<longrightarrow> a = next_addr h \<and> a \<notin> dom (objs h) \<and> a \<notin> ran (cache h)
          \<and> (\<exists>d. objs h' a = Some \<lparr>okey = Some k, odict = d\<rparr>)
          \<and> (\<forall>b. b \<noteq> a \<longrightarrow> objs h' b = objs h b))
   \<and> (Cached_old_call ini args0 g = Inr (a0, g')
      \<longrightarrow> Cached_old_call ini args0 g' = Inr (a0, g'))"
  using Cached_call_hit [of c args k h a] Cached_call_no_cache [of c args k h a h']
    Cached_old_call_again [of ini args0 g a0 g']
  by blast

theorem C1_cached_construction_witness:
  "Cached_call plain_cls (''a.mol'', True) reg_heap = Inr (0, reg_heap)
   \<and> wf_heap reg_heap
   \<and> returned (Cached_call plain_cls (''a.mol'', False) reg_heap) = Some 1
   \<and> 1 \<notin> dom (objs reg_heap) \<and> cache reg_heap ''a.mol'' = Some 0
   \<and> returned (Cached_old_call plain_init ''a.mol'' (empty_heap :: (string, string) heap)) = Some 0
   \<and> returned (Cached_old_call plain_init ''a.mol''
        (heap_after empty_heap (Cached_old_call plain_init ''a.mol'' empty_heap))) = Some 0"
proof -
  let ?h1 = "\<lparr>objs = [0 \<mapsto> \<lparr>okey = None, odict = [''path'' \<mapsto> ''a.mol'']\<rparr>],
     cache = [''a.mol'' \<mapsto> (0::nat)], next_addr = 1\<rparr> :: (string, string) heap"
  have u: "use_cache plain_cls (''a.mol'', True)" and k: "get_key plain_cls (''a.mol'', True) = Inr ''a.mol''"
    and c: "cache reg_heap ''a.mol'' = Some 0"
    by (simp_all add: plain_cls_def reg_heap_def)
  have nu: "\<not> use_cache plain_cls (''a.mol'', False)"
    and nk: "get_key plain_cls (''a.mol'', False) = Inr ''a.mol''"
    by (simp_all add: plain_cls_def)
  have wf: "wf_heap reg_heap"
    by (simp add: wf_heap_def reg_heap_def)
  have "\<exists>h2. Cached_call plain_cls (''a.mol'', False) reg_heap = Inr (1, h2)"
    by (simp add: Cached_call_def plain_cls_def reg_heap_def type_call_def)
  then obtain h2 where r: "Cached_call plain_cls (''a.mol'', False) reg_heap = Inr (1, h2)"
    by blast
  have o: "Cached_old_call plain_init ''a.mol'' (empty_heap :: (string, string) heap) = Inr (0, ?h1)"
    by (simp add: Cached_old_call_def plain_init_def empty_heap_def type_call_def)
  from C1_cached_construction [of plain_cls "(''a.mol'', True)" "''a.mol''" reg_heap 0 reg_heap
      plain_init "''a.mol''" empty_heap 0 ?h1] u k c o
  have 1: "Cached_call plain_cls (''a.mol'', True) reg_heap = Inr (0, reg_heap)"
    and 3: "Cached_old_call plain_init ''a.mol'' ?h1 = Inr (0, ?h1)"
    by blast+
  from C1_cached_construction [of plain_cls "(''a.mol'', False)" "''a.mol''" reg_heap 1 h2
      plain_init "''a.mol''" empty_heap 0 ?h1] nu nk wf r
  have 2: "1 \<notin> dom (objs reg_heap)"
    by blast
  show ?thesis
    using 1 2 3 wf r c o by (simp add: returned_def heap_after_def)
qed

text \<open>
  Claim C1 as stated fails for \<^verbatim>\<open>_Cached\<close>: for a class whose initializer does not
  store the instance in the cache, two constructions with the same arguments and
  \<^verbatim>\<open>use_cache\<close> true return two instances (addresses 0 and 1).
\<close>

theorem C1_counterexample:
  "returned (Cached_call plain_cls (''a.mol'', True) (empty_heap :: (string, string) heap)) = Some 0
   \<and> returned (Cached_call plain_cls (''a.mol'', True)
        (heap_after empty_heap (Cached_call plain_cls (''a.mol'', True) empty_heap))) = Some 1"
  by (simp add: Cached_call_def plain_cls_def empty_heap_def type_call_def set_key_def
      returned_def heap_after_def)

section \<open>The mutation engine: theorems\<close>


lemma mutate_loop_all_fail:
  assumes "\<forall>st. \<forall>p\<in>set pool. \<exists>e nm st'. attempt ev self st p = Some (Failed e nm st')"
  shows "\<exists>st' cnt'. mutate_loop ev self pool st members num cnt = Some (Inr (members, st', cnt'))"
  using assms
proof (induction pool arbitrary: st cnt)
  case Nil
  then show ?case by simp
next
  case (Cons p pool)
  from Cons.prems obtain e nm st' where a: "attempt ev self st p = Some (Failed e nm st')"
    by (meson list.set_intros(1))
  from Cons.prems have all: "\<forall>st. \<forall>p\<in>set pool. \<exists>e nm st'. attempt ev self st p = Some (Failed e nm st')"
    by simp
  from Cons.IH[OF all] a show ?case by simp
qed

lemma attempt_not_escaped:
  assumes "weights_valid self" and "funcs self \<noteq> []"
    and "\<forall>fd\<in>set (funcs self). \<exists>m. getattr (fname fd) = Inr m"
  shows "attempt ev self st p \<noteq> Some (Escaped e)"
proof -
  let ?fd = "funcs self ! (rnd ev (draws st) mod length (funcs self))"
  have "?fd \<in> set (funcs self)" using assms(2) by simp
  with assms(3) obtain m where "getattr (fname ?fd) = Inr m" by blast
  then show ?thesis using assms(1,2)
    by (auto simp: attempt_def random_choice_def split: option.splits sum.splits prod.splits)
qed

lemma mutate_loop_not_escaped:
  assumes "weights_valid self" and "funcs self \<noteq> []"
    and "\<forall>fd\<in>set (funcs self). \<exists>m. getattr (fname fd) = Inr m"
  shows "mutate_loop ev self pool st members num cnt \<noteq> Some (Inl e)"
proof (induction pool arbitrary: st members num cnt)
  case Nil
  then show ?case by simp
next
  case (Cons p pool)
  have ne: "\<And>e'. attempt ev self st p \<noteq> Some (Escaped e')"
    using attempt_not_escaped[OF assms] by blast
  show ?case
  proof (cases "attempt ev self st p")
    case None
    then show ?thesis by simp
  next
    case (Some oc)
    then show ?thesis using ne Cons.IH
      by (cases oc) auto
  qed
qed









lemma mutate_loop_failed_step:
  "attempt ev self st parent = Some (Failed ex nm st') \<Longrightarrow>
   mutate_loop ev self (parent # pool) st members num cnt =
   mutate_loop ev self pool (st'\<lparr>errors := errors st' @ [(ex, parent, nm)]\<rparr>) members num
     (counter_update cnt parent)"
  by simp

lemma Mutation_call_all_fail:
  assumes "\<forall>s. \<forall>p\<in>set pool. \<exists>e n s'. attempt ev self s p = Some (Failed e n s')"
  shows "\<exists>st' cnt'. Mutation_call ev self population pool st = Some (Inr ([], st', cnt'))"
proof -
  from mutate_loop_all_fail[OF assms, of st "[]" 0 Map.empty]
  obtain st' cnt' where "mutate_loop ev self pool st [] 0 Map.empty = Some (Inr ([], st', cnt'))"
    by blast
  then show ?thesis by (simp add: Mutation_call_def population_sub_def)
qed

lemma Mutation_call_not_escaped:
  assumes "weights_valid self" and "funcs self \<noteq> []"
    and "\<forall>fd\<in>set (funcs self). \<exists>m. getattr (fname fd) = Inr m"
  shows "Mutation_call ev self population pool st \<noteq> Some (Inl e)"
  using mutate_loop_not_escaped[OF assms, of ev pool st "[]" 0 Map.empty e]
  by (auto simp: Mutation_call_def split: option.splits sum.splits)

text \<open>
  Claim C3. (1) When the operator raises for a parent, the exception is caught inside the
  loop: the failure is reported and the loop goes on with the next parent, the mutants
  collected so far and the count unchanged. (2) When every attempt raises, the round
  returns normally with an empty output population. (3) With a valid configuration (the
  weights accepted, at least one operator, every operator name a mutation method) no
  exception leaves \<^verbatim>\<open>__call__\<close>, whatever the operators raise. The parent pool is finite.
\<close>

theorem C3_failure_isolation:
  "(attempt ev self st parent = Some (Failed ex nm st') \<longrightarrow>
      mutate_loop ev self (parent # pool) st members num cnt =
      mutate_loop ev self pool (st'\<lparr>errors := errors st' @ [(ex, parent, nm)]\<rparr>) members num
        (counter_update cnt parent))
   \<and> ((\<forall>s. \<forall>p\<in>set pool. \<exists>e n s'. attempt ev self s p = Some (Failed e n s')) \<longrightarrow>
      (\<exists>st'' cnt'. Mutation_call ev self population pool st = Some (Inr ([], st'', cnt'))))
   \<and> (weights_valid self \<and> funcs self \<noteq> []
        \<and> (\<forall>fd\<in>set (funcs self). \<exists>m. getattr (fname fd) = Inr m) \<longrightarrow>
      Mutation_call ev self population pool st \<noteq> Some (Inl e))"
  using mutate_loop_failed_step[of ev self st parent ex nm st' pool members num cnt]
    Mutation_call_all_fail[of pool ev self population st]
    Mutation_call_not_escaped[of self ev population pool st e]
  by blast

lemma pick_missing: "pick_mol ev0 ''nodb'' st = Some (Inl FileNotFoundError, st)"
  by (subst pick_mol.simps) (simp add: ev0_def)

lemma attempt_missing:
  "attempt ev0 self_missing s p = Some (Failed FileNotFoundError ''random_bb''
     (s\<lparr>draws := Suc (draws s), n_calls := Suc (n_calls s)\<rparr>))"
  by (simp add: attempt_def self_missing_def random_choice_def getattr_def random_bb_def
      pick_missing)

theorem C3_failure_isolation_witness:
  "attempt ev0 self_missing st0 parent0 = Some (Failed FileNotFoundError ''random_bb''
     (st0\<lparr>draws := Suc (draws st0), n_calls := Suc (n_calls st0)\<rparr>))
   \<and> weights_valid self_missing \<and> funcs self_missing \<noteq> []
   \<and> getattr ''random_bb'' = Inr M_random_bb
   \<and> members_of (Mutation_call ev0 self_missing [parent0, other0] [parent0, other0] st0) = Some []
   \<and> members_of (mutate_loop ev0 self_missing [parent0, other0] st0 [] 0 Map.empty) =
      members_of (mutate_loop ev0 self_missing [other0]
        (st0\<lparr>draws := Suc (draws st0), n_calls := Suc (n_calls st0),
            errors := [(FileNotFoundError, parent0, ''random_bb'')]\<rparr>) [] 0
        (counter_update Map.empty parent0))"
proof -
  have f: "\<forall>s. \<forall>p\<in>set [parent0, other0]. \<exists>e n s'.
      attempt ev0 self_missing s p = Some (Failed e n s')"
    using attempt_missing by simp
  have v: "weights_valid self_missing" "funcs self_missing \<noteq> []"
    "\<forall>fd\<in>set (funcs self_missing). \<exists>m. getattr (fname fd) = Inr m"
    "getattr ''random_bb'' = Inr M_random_bb"
    by (simp_all add: self_missing_def getattr_def)
  note t = C3_failure_isolation[where ev = ev0 and self = self_missing and st = st0
      and parent = parent0 and ex = FileNotFoundError and nm = "''random_bb''"
      and st' = "st0\<lparr>draws := Suc (draws st0), n_calls := Suc (n_calls st0)\<rparr>"
      and pool = "[other0]" and members = "[]" and num = 0 and cnt = Map.empty]
  note u = C3_failure_isolation[where ev = ev0 and self = self_missing and st = st0
      and pool = "[parent0, other0]" and population = "[parent0, other0]"]
  from u f obtain st'' cnt' where
    "Mutation_call ev0 self_missing [parent0, other0] [parent0, other0] st0
       = Some (Inr ([], st'', cnt'))"
    by blast
  moreover from t attempt_missing[of st0 parent0]
  have "mutate_loop ev0 self_missing (parent0 # [other0]) st0 [] 0 Map.empty =
      mutate_loop ev0 self_missing [other0]
        ((st0\<lparr>draws := Suc (draws st0), n_calls := Suc (n_calls st0)\<rparr>)
           \<lparr>errors := errors (st0\<lparr>draws := Suc (draws st0), n_calls := Suc (n_calls st0)\<rparr>)
              @ [(FileNotFoundError, parent0, ''random_bb'')]\<rparr>) [] 0
        (counter_update Map.empty parent0)"
    by blast
  ultimately show ?thesis
    using v attempt_missing[of st0 parent0] by (simp add: members_of_def st0_def)
qed






lemma similar_bb_attached:
  assumes "similar_bb_mols st c = Some ys" and "lk c = Some l" and "\<forall>us t. assemble ev us t = None"
  shows "similar_bb ev st c db =
     (case ys of [] \<Rightarrow> (Inl StopIteration, st)
      | f # rest \<Rightarrow> (Inr (similar_bb_cage ev st c l f),
                     st\<lparr>similar_bb_mols := (similar_bb_mols st)(c \<mapsto> rest)\<rparr>))"
  using assms
  by (simp add: similar_bb_def lk_def Cage_def similar_bb_cage_def mutant_path_def Let_def
      split: list.splits)

lemma similar_bb_times_attached:
  assumes "similar_bb_mols st c = Some ys" and "lk c = Some l" and "\<forall>us t. assemble ev us t = None"
  shows "fst (similar_bb_times ev st c db n) =
     map (\<lambda>i. if i < length ys then Inr (similar_bb_cage ev st c l (ys ! i))
               else Inl StopIteration) [0..<n]"
  using assms(1)
proof (induction n arbitrary: st ys)
  case 0
  then show ?case by simp
next
  case (Suc n)
  show ?case
  proof (cases ys)
    case Nil
    with Suc.prems have s: "similar_bb ev st c db = (Inl StopIteration, st)"
      using similar_bb_attached[OF Suc.prems assms(2,3)] by simp
    from Suc.IH[OF Suc.prems] Nil s show ?thesis
      by (simp add: map_upt_Suc split_beta del: upt_Suc)
  next
    case (Cons f rest)
    let ?st1 = "st\<lparr>similar_bb_mols := (similar_bb_mols st)(c \<mapsto> rest)\<rparr>"
    have s: "similar_bb ev st c db = (Inr (similar_bb_cage ev st c l f), ?st1)"
      using similar_bb_attached[OF Suc.prems assms(2,3)] Cons by simp
    have a: "similar_bb_mols ?st1 c = Some rest" by simp
    have e: "similar_bb_cage ev ?st1 c l = similar_bb_cage ev st c l"
      by (simp add: similar_bb_cage_def mutant_path_def fun_eq_iff)
    from Suc.IH[OF a] Cons s e show ?thesis
      by (simp add: map_upt_Suc split_beta del: upt_Suc)
  qed
qed

lemma similar_bb_times_fresh:
  assumes "similar_bb_mols st c = None" and "bb c = Some b" and "lk c = Some l"
    and "\<forall>us t. assemble ev us t = None"
  shows "fst (similar_bb_times ev st c db n) =
     map (\<lambda>i. if i < length (similar_molecules ev b db)
               then Inr (similar_bb_cage ev st c l (similar_molecules ev b db ! i))
               else Inl StopIteration) [0..<n]"
proof (cases n)
  case 0
  then show ?thesis by simp
next
  case (Suc m)
  let ?ys = "similar_molecules ev b db"
  let ?st0 = "st\<lparr>similar_bb_mols := (similar_bb_mols st)(c \<mapsto> ?ys)\<rparr>"
  have same: "similar_bb ev st c db = similar_bb ev ?st0 c db"
    using assms(1,2) by (simp add: similar_bb_def bb_def)
  have "similar_bb_times ev st c db n = similar_bb_times ev ?st0 c db n"
    using Suc same by simp
  moreover have "similar_bb_mols ?st0 c = Some ?ys" by simp
  moreover have "similar_bb_cage ev ?st0 c l = similar_bb_cage ev st c l"
    by (simp add: similar_bb_cage_def mutant_path_def fun_eq_iff)
  ultimately show ?thesis
    using similar_bb_times_attached[of ?st0 c ?ys l ev db n] assms(3,4) by simp
qed

lemma similar_bb_times_state:
  assumes "similar_bb_mols st c = Some ys" and "lk c = Some l" and "\<forall>us t. assemble ev us t = None"
  shows "similar_bb_mols (snd (similar_bb_times ev st c db n)) c = Some (drop n ys)"
  using assms(1)
proof (induction n arbitrary: st ys)
  case 0
  then show ?case by simp
next
  case (Suc n)
  show ?case
  proof (cases ys)
    case Nil
    with Suc.prems have s: "similar_bb ev st c db = (Inl StopIteration, st)"
      using similar_bb_attached[OF Suc.prems assms(2,3)] by simp
    from Suc.IH[OF Suc.prems] Nil s show ?thesis
      by (simp add: split_beta)
  next
    case (Cons f rest)
    let ?st1 = "st\<lparr>similar_bb_mols := (similar_bb_mols st)(c \<mapsto> rest)\<rparr>"
    have s: "similar_bb ev st c db = (Inr (similar_bb_cage ev st c l f), ?st1)"
      using similar_bb_attached[OF Suc.prems assms(2,3)] Cons by simp
    have a: "similar_bb_mols ?st1 c = Some rest" by simp
    from Suc.IH[OF a] Cons s show ?thesis
      by (simp add: split_beta)
  qed
qed

lemma similar_bb_times_fresh_state:
  assumes "similar_bb_mols st c = None" and "bb c = Some b" and "lk c = Some l"
    and "\<forall>us t. assemble ev us t = None" and "0 < n"
  shows "similar_bb_mols (snd (similar_bb_times ev st c db n)) c
     = Some (drop n (similar_molecules ev b db))"
proof -
  from assms(5) obtain m where n: "n = Suc m" by (cases n) auto
  let ?ys = "similar_molecules ev b db"
  let ?st0 = "st\<lparr>similar_bb_mols := (similar_bb_mols st)(c \<mapsto> ?ys)\<rparr>"
  have same: "similar_bb ev st c db = similar_bb ev ?st0 c db"
    using assms(1,2) by (simp add: similar_bb_def bb_def)
  have "similar_bb_times ev st c db n = similar_bb_times ev ?st0 c db n"
    using n same by simp
  moreover have "similar_bb_mols ?st0 c = Some ?ys" by simp
  ultimately show ?thesis
    using similar_bb_times_state[of ?st0 c ?ys l ev db n] assms(3,4) by simp
qed

lemma similar_lk_attached:
  assumes "similar_lk_mols st c = Some ys" and "bb c = Some b" and "\<forall>us t. assemble ev us t = None"
  shows "similar_lk ev st c db =
     (case ys of [] \<Rightarrow> (Inl StopIteration, st)
      | f # rest \<Rightarrow> (Inr (similar_lk_cage ev st c b f),
                     st\<lparr>similar_lk_mols := (similar_lk_mols st)(c \<mapsto> rest)\<rparr>))"
  using assms
  by (simp add: similar_lk_def bb_def Cage_def similar_lk_cage_def mutant_path_def Let_def
      split: list.splits)

lemma similar_lk_times_attached:
  assumes "similar_lk_mols st c = Some ys" and "bb c = Some b" and "\<forall>us t. assemble ev us t = None"
  shows "fst (similar_lk_times ev st c db n) =
     map (\<lambda>i. if i < length ys then Inr (similar_lk_cage ev st c b (ys ! i))
               else Inl StopIteration) [0..<n]"
  using assms(1)
proof (induction n arbitrary: st ys)
  case 0
  then show ?case by simp
next
  case (Suc n)
  show ?case
  proof (cases ys)
    case Nil
    with Suc.prems have s: "similar_lk ev st c db = (Inl StopIteration, st)"
      using similar_lk_attached[OF Suc.prems assms(2,3)] by simp
    from Suc.IH[OF Suc.prems] Nil s show ?thesis
      by (simp add: map_upt_Suc split_beta del: upt_Suc)
  next
    case (Cons f rest)
    let ?st1 = "st\<lparr>similar_lk_mols := (similar_lk_mols st)(c \<mapsto> rest)\<rparr>"
    have s: "similar_lk ev st c db = (Inr (similar_lk_cage ev st c b f), ?st1)"
      using similar_lk_attached[OF Suc.prems assms(2,3)] Cons by simp
    have a: "similar_lk_mols ?st1 c = Some rest" by simp
    have e: "similar_lk_cage ev ?st1 c b = similar_lk_cage ev st c b"
      by (simp add: similar_lk_cage_def mutant_path_def fun_eq_iff)
    from Suc.IH[OF a] Cons s e show ?thesis
      by (simp add: map_upt_Suc split_beta del: upt_Suc)
  qed
qed

lemma similar_lk_times_fresh:
  assumes "similar_lk_mols st c = None" and "bb c = Some b" and "lk c = Some l"
    and "\<forall>us t. assemble ev us t = None"
  shows "fst (similar_lk_times ev st c db n) =
     map (\<lambda>i. if i < length (similar_molecules ev l db)
               then Inr (similar_lk_cage ev st c b (similar_molecules ev l db ! i))
               else Inl StopIteration) [0..<n]"
proof (cases n)
  case 0
  then show ?thesis by simp
next
  case (Suc m)
  let ?ys = "similar_molecules ev l db"
  let ?st0 = "st\<lparr>similar_lk_mols := (similar_lk_mols st)(c \<mapsto> ?ys)\<rparr>"
  have same: "similar_lk ev st c db = similar_lk ev ?st0 c db"
    using assms(1,3) by (simp add: similar_lk_def lk_def)
  have "similar_lk_times ev st c db n = similar_lk_times ev ?st0 c db n"
    using Suc same by simp
  moreover have "similar_lk_mols ?st0 c = Some ?ys" by simp
  moreover have "similar_lk_cage ev ?st0 c b = similar_lk_cage ev st c b"
    by (simp add: similar_lk_cage_def mutant_path_def fun_eq_iff)
  ultimately show ?thesis
    using similar_lk_times_attached[of ?st0 c ?ys b ev db n] assms(2,4) by simp
qed

lemma similar_exhaustion_failed:
  assumes "similar_bb_mols st c = Some []"
    and "funcs self = [FunctionData ''similar_bb'' (Database db)]" and "weights_valid self"
  shows "attempt ev self st c = Some (Failed StopIteration ''similar_bb''
     (st\<lparr>draws := Suc (draws st), n_calls := Suc (n_calls st)\<rparr>))"
  using assms
  by (simp add: attempt_def random_choice_def getattr_def similar_bb_def)

text \<open>
  Claim C5, as the code has it. For a parent with a building-block* and a linker on which
  \<^verbatim>\<open>similar_bb\<close> has not run yet, \<open>n\<close> invocations in a row return, in order, the
  cages built from the 1st, 2nd, ... file of the ranked sequence; every invocation after
  the last file raises \<^verbatim>\<open>StopIteration\<close>. The first invocation attaches the sequence to
  the parent and each one advances it (after \<open>n\<close> invocations the first \<open>n\<close> files are
  gone). \<^verbatim>\<open>similar_lk\<close> does the same with the linker. Inside a round the exhaustion is
  a failure of that attempt, caught by the loop. With 3 candidates the first three
  invocations succeed and the fourth raises.
\<close>

theorem C5_similarity_sequence:
  assumes "bb c = Some b" and "lk c = Some l" and "\<forall>us t. assemble ev us t = None"
  shows "(similar_bb_mols st c = None \<longrightarrow>
      fst (similar_bb_times ev st c db n) =
        map (\<lambda>i. if i < length (similar_molecules ev b db)
                  then Inr (similar_bb_cage ev st c l (similar_molecules ev b db ! i))
                  else Inl StopIteration) [0..<n]
      \<and> (0 < n \<longrightarrow> similar_bb_mols (snd (similar_bb_times ev st c db n)) c
            = Some (drop n (similar_molecules ev b db))))
   \<and> (similar_lk_mols st c = None \<longrightarrow>
      fst (similar_lk_times ev st c db n) =
        map (\<lambda>i. if i < length (similar_molecules ev l db)
                  then Inr (similar_lk_cage ev st c b (similar_molecules ev l db ! i))
                  else Inl StopIteration) [0..<n])
   \<and> (similar_bb_mols st c = Some []
        \<and> funcs self = [FunctionData ''similar_bb'' (Database db)] \<and> weights_valid self \<longrightarrow>
      attempt ev self st c = Some (Failed StopIteration ''similar_bb''
        (st\<lparr>draws := Suc (draws st), n_calls := Suc (n_calls st)\<rparr>)))"
  using similar_bb_times_fresh[OF _ assms, of st db n]
    similar_bb_times_fresh_state[OF _ assms, of st n db]
    similar_lk_times_fresh[OF _ assms, of st db n]
    similar_exhaustion_failed[of st c self db ev]
  by blast

lemma parent0_units: "bb parent0 = Some (StructUnit3 ''db/a.mol'')"
  "lk parent0 = Some (StructUnit2 ''lk.mol'')"
  by (simp_all add: bb_def lk_def parent0_def)

lemma ev0_assemble: "\<forall>us t. assemble ev0 us t = None"
  by (simp add: ev0_def)

theorem C5_similarity_sequence_witness:
  "bb parent0 = Some (StructUnit3 ''db/a.mol'') \<and> lk parent0 = Some (StructUnit2 ''lk.mol'')
   \<and> similar_bb_mols st0 parent0 = None \<and> similar_lk_mols st0 parent0 = None
   \<and> fst (similar_bb_times ev0 st0 parent0 ''db'' 4) =
       [Inr (similar_bb_cage ev0 st0 parent0 (StructUnit2 ''lk.mol'') ''c1.mol''),
        Inr (similar_bb_cage ev0 st0 parent0 (StructUnit2 ''lk.mol'') ''c2.mol''),
        Inr (similar_bb_cage ev0 st0 parent0 (StructUnit2 ''lk.mol'') ''c3.mol''),
        Inl StopIteration]
   \<and> similar_bb_mols (snd (similar_bb_times ev0 st0 parent0 ''db'' 4)) parent0 = Some []
   \<and> fst (similar_lk_times ev0 st0 parent0 ''db'' 2) =
       [Inr (similar_lk_cage ev0 st0 parent0 (StructUnit3 ''db/a.mol'') ''c1.mol''),
        Inr (similar_lk_cage ev0 st0 parent0 (StructUnit3 ''db/a.mol'') ''c2.mol'')]
   \<and> attempt ev0 self_similar (snd (similar_bb_times ev0 st0 parent0 ''db'' 4)) parent0 =
       Some (Failed StopIteration ''similar_bb''
         ((snd (similar_bb_times ev0 st0 parent0 ''db'' 4))
            \<lparr>draws := Suc (draws (snd (similar_bb_times ev0 st0 parent0 ''db'' 4))),
             n_calls := Suc (n_calls (snd (similar_bb_times ev0 st0 parent0 ''db'' 4)))\<rparr>))"
proof -
  have n: "similar_bb_mols st0 parent0 = None" "similar_lk_mols st0 parent0 = None"
    by (simp_all add: st0_def)
  have sm: "similar_molecules ev0 u d = [''c1.mol'', ''c2.mol'', ''c3.mol'']" for u d
    by (simp add: ev0_def)
  have up4: "[0..<4] = [0, 1, 2, 3]" and up2: "[0..<2] = [0, 1]"
    by (simp_all add: upt_rec)
  note t4 = C5_similarity_sequence[OF parent0_units ev0_assemble, of st0 "''db''" 4]
  note t2 = C5_similarity_sequence[OF parent0_units ev0_assemble, of st0 "''db''" 2]
  from t4 n have 1: "fst (similar_bb_times ev0 st0 parent0 ''db'' 4) =
       [Inr (similar_bb_cage ev0 st0 parent0 (StructUnit2 ''lk.mol'') ''c1.mol''),
        Inr (similar_bb_cage ev0 st0 parent0 (StructUnit2 ''lk.mol'') ''c2.mol''),
        Inr (similar_bb_cage ev0 st0 parent0 (StructUnit2 ''lk.mol'') ''c3.mol''),
        Inl StopIteration]"
    and 2: "similar_bb_mols (snd (similar_bb_times ev0 st0 parent0 ''db'' 4)) parent0 = Some []"
    by (simp_all add: sm up4)
  from t2 n have 3: "fst (similar_lk_times ev0 st0 parent0 ''db'' 2) =
       [Inr (similar_lk_cage ev0 st0 parent0 (StructUnit3 ''db/a.mol'') ''c1.mol''),
        Inr (similar_lk_cage ev0 st0 parent0 (StructUnit3 ''db/a.mol'') ''c2.mol'')]"
    by (simp add: sm up2)
  have 4: "attempt ev0 self_similar (snd (similar_bb_times ev0 st0 parent0 ''db'' 4)) parent0 =
       Some (Failed StopIteration ''similar_bb''
         ((snd (similar_bb_times ev0 st0 parent0 ''db'' 4))
            \<lparr>draws := Suc (draws (snd (similar_bb_times ev0 st0 parent0 ''db'' 4))),
             n_calls := Suc (n_calls (snd (similar_bb_times ev0 st0 parent0 ''db'' 4)))\<rparr>))"
    using C5_similarity_sequence[OF parent0_units ev0_assemble,
        of "snd (similar_bb_times ev0 st0 parent0 ''db'' 4)" "''db''" 0 self_similar] 2
    by (simp add: self_similar_def)
  show ?thesis using parent0_units n 1 2 3 4 by simp
qed

lemma similar_bb_step0:
  "similar_bb ev0 st parent0 ''db'' =
    (case similar_bb_mols st parent0 of
       None \<Rightarrow> (Inr (similar_bb_cage ev0 st parent0 (StructUnit2 ''lk.mol'') ''c1.mol''),
                 st\<lparr>similar_bb_mols := (similar_bb_mols st)(parent0 \<mapsto> [''c2.mol'', ''c3.mol''])\<rparr>)
     | Some [] \<Rightarrow> (Inl StopIteration, st)
     | Some (f # rest) \<Rightarrow> (Inr (similar_bb_cage ev0 st parent0 (StructUnit2 ''lk.mol'') f),
                 st\<lparr>similar_bb_mols := (similar_bb_mols st)(parent0 \<mapsto> rest)\<rparr>))"
  by (simp add: similar_bb_def ev0_def parent0_def Cage_def similar_bb_cage_def mutant_path_def
      split: option.splits list.splits)

text \<open>
  Claim C5 as stated fails in its scenario: with a database of 3 candidates the third
  invocation on the same parent does not raise; it returns the cage built from the third
  most similar candidate.
\<close>

theorem C5_counterexample:
  "fst (similar_bb_times ev0 st0 parent0 ''db'' 3) =
     [Inr \<lparr>building_blocks = [StructUnit3 ''c1.mol'', StructUnit2 ''lk.mol''],
           topology = ''FourPlusSix'', prist_mol_file = ''/w/mutation_0.mol'', fitness = None\<rparr>,
      Inr \<lparr>building_blocks = [StructUnit3 ''c2.mol'', StructUnit2 ''lk.mol''],
           topology = ''FourPlusSix'', prist_mol_file = ''/w/mutation_0.mol'', fitness = None\<rparr>,
      Inr \<lparr>building_blocks = [StructUnit3 ''c3.mol'', StructUnit2 ''lk.mol''],
           topology = ''FourPlusSix'', prist_mol_file = ''/w/mutation_0.mol'', fitness = None\<rparr>]"
proof -
  have sn: "show_nat 0 = ''0''" by (subst show_nat.simps) simp
  have p: "path_join (cwd ev0) (name_format 0) = ''/w/mutation_0.mol''"
    by (simp add: ev0_def path_join_def name_format_def sn)
  have "fst (similar_bb_times ev0 st0 parent0 ''db'' (Suc (Suc (Suc 0)))) =
     [Inr (similar_bb_cage ev0 st0 parent0 (StructUnit2 ''lk.mol'') ''c1.mol''),
      Inr (similar_bb_cage ev0 st0 parent0 (StructUnit2 ''lk.mol'') ''c2.mol''),
      Inr (similar_bb_cage ev0 st0 parent0 (StructUnit2 ''lk.mol'') ''c3.mol'')]"
    by (simp add: similar_bb_step0 st0_def similar_bb_cage_def mutant_path_def)
  then show ?thesis
    by (simp add: numeral_3_eq_3 similar_bb_cage_def mutant_path_def p st0_def)
       (simp add: parent0_def)
qed

section \<open>Structural units and file updates: theorems\<close>

lemma StructUnit_init_func_grp:
  assumes "StructUnit_init ch path = Inr su"
  shows "func_grp su = find (\<lambda>x. py_in (fg_name x) path) functional_group_list
     \<and> func_grp su \<noteq> None"
  using assms
  by (auto simp: StructUnit_init_def Let_def make_atoms_heavy_in_heavy_def
      split: option.splits sum.splits list.splits)

lemma StructUnit_init_no_match:
  assumes "find (\<lambda>x. py_in (fg_name x) path) functional_group_list = None"
    and "chem_MolFromMolFile ch path = Some pm"
  shows "StructUnit_init ch path = Inl AttributeError"
  using assms by (simp add: StructUnit_init_def make_atoms_heavy_in_heavy_def)

lemma find_unknown:
  "find (\<lambda>x. py_in (fg_name x) ''/db/unknown/m1.mol'') functional_group_list = None"
  by (simp add: functional_group_list_def mkFG_def)

lemma find_amine:
  "find (\<lambda>x. py_in (fg_name x) ''/db/amine/m1.mol'') functional_group_list
     = Some (mkFG ''amine'' ''[N]([H])[H]'' ''[Rh]'' 7 45 ''N'' ''Rh'')"
  by (simp add: functional_group_list_def mkFG_def)

lemma find_first_match:
  "find (\<lambda>x. py_in (fg_name x) ''/db/amine/thiol_2.mol'') functional_group_list
     = Some (mkFG ''thiol'' ''[S][H]'' ''[Ru]'' 16 44 ''S'' ''Ru'')"
  by (simp add: functional_group_list_def mkFG_def)

lemma splitext_mol: "splitext ''/db/amine/m1.mol'' = (''/db/amine/m1'', ''.mol'')"
  by (simp add: splitext_def upto_last_def after_last_def)

lemma StructUnit_init_amine:
  "StructUnit_init chem0 ''/db/amine/m1.mol'' = Inr
     \<lparr>su_prist_mol_file = ''/db/amine/m1.mol'', prist_mol = ''NCCN'', prist_smiles = ''NCCN'',
      func_grp = Some (mkFG ''amine'' ''[N]([H])[H]'' ''[Rh]'' 7 45 ''N'' ''Rh''),
      heavy_mol = ''NCCN.[Rh]'', heavy_mol_file = ''/db/amine/m1_HEAVY_amine_.mol'',
      heavy_smiles = ''NCCN.[Rh]''\<rparr>"
  unfolding StructUnit_init_def Let_def find_amine
  by (simp add: make_atoms_heavy_in_heavy_def heavy_file_name_def splitext_mol chem0_def
      mkFG_def)

text \<open>
  Claim C8 says that construction completes with \<^verbatim>\<open>func_grp = None\<close> when no name of the
  table occurs in the path. The resolution is as claimed (first match in table order,
  \<^verbatim>\<open>None\<close> without a match: \<open>StructUnit_init_func_grp\<close>, \<open>find_first_match\<close>), but
  the initializer then reads \<^verbatim>\<open>self.func_grp.smarts_start\<close>: for a path without a
  functional group name the construction raises \<^verbatim>\<open>AttributeError\<close> and produces no
  substituted outputs.
\<close>

theorem C8_no_match_raises:
  "find (\<lambda>x. py_in (fg_name x) ''/db/unknown/m1.mol'') functional_group_list = None
   \<and> StructUnit_init chem0 ''/db/unknown/m1.mol'' = Inl AttributeError"
  using StructUnit_init_no_match[OF find_unknown, of chem0 "''NCCN''"] find_unknown
  by (simp add: chem0_def)

lemma splitext_h2: "snd (splitext ''h2.mol'') = ''.mol''"
  by (simp add: splitext_def upto_last_def after_last_def)

lemma update_from_mol_unchecked:
  assumes "MolFromMolFile fs path = Some mol"
  shows "update_from_mol fs m path None = Inr (m\<lparr>conformers := conformers m @ [mol_positions mol]\<rparr>)"
  using assms by (simp add: update_from_mol_def update_from_rdkit_mol_def set_position_matrix_def)

text \<open>
  Claim C7 says that an update from a file whose atoms disagree with the molecule raises.
  The \<^verbatim>\<open>.xyz\<close> path does (\<open>update_from_xyz_checked\<close>: an update that succeeds has
  read the right count and the right elements), but the \<^verbatim>\<open>.mol\<close> path compares
  nothing: a molecule of one carbon atom updated from a \<^verbatim>\<open>.mol\<close> file of two hydrogen
  atoms takes the two positions as its conformer, and no error is raised.
\<close>

theorem C7_mol_update_unchecked:
  "update_from_file exact fs0 tiny ''h2.mol'' (Some 0) =
     Inr (tiny\<lparr>conformers := [[(Fin 0, Fin 0, Fin 0), (Fin 1, Fin 0, Fin 0)]]\<rparr>)
   \<and> length (atoms tiny) = 1
   \<and> map element (atoms tiny) = [''C'']
   \<and> map_option mol_elements (MolFromMolFile fs0 ''h2.mol'') = Some [''H'', ''H'']"
  by (simp add: update_from_file_def splitext_h2 update_from_mol_def update_from_rdkit_mol_def
      set_position_matrix_def py_set_index_def fs0_def tiny_def carbon_def)

lemma xyz_lines_checked:
  assumes "xyz_lines fs m i content = Inr ps"
  shows "length ps = length content
     \<and> (\<forall>j < length content. i + j < length (atoms m)
          \<and> (\<exists>el coords. py_split (content ! j) = el # coords
               \<and> element_of fs el = Inr (element (atoms m ! (i + j)))))"
  using assms
proof (induction content arbitrary: i ps)
  case Nil
  then show ?case by auto
next
  case (Cons line rest)
  from Cons.prems obtain el coords p ps' where
    s: "py_split line = el # coords" and e: "element_of fs el = Inr (element (atoms m ! i))"
    and i: "i < length (atoms m)" and r: "xyz_lines fs m (Suc i) rest = Inr ps'"
    and ps: "ps = p # ps'"
    by (auto split: list.splits sum.splits if_splits)
  from Cons.IH[OF r] have ih: "length ps' = length rest"
    "\<forall>j < length rest. Suc i + j < length (atoms m)
          \<and> (\<exists>el coords. py_split (rest ! j) = el # coords
               \<and> element_of fs el = Inr (element (atoms m ! (Suc i + j))))"
    by simp_all
  have "i + j < length (atoms m)
          \<and> (\<exists>el coords. py_split ((line # rest) ! j) = el # coords
               \<and> element_of fs el = Inr (element (atoms m ! (i + j))))"
    if "j < length (line # rest)" for j
  proof (cases j)
    case 0
    then show ?thesis using s e i by simp
  next
    case (Suc k)
    then show ?thesis using ih(2) that by simp
  qed
  then show ?case using ih(1) ps by simp
qed

lemma update_from_xyz_checked:
  assumes "update_from_xyz fs m path conformer_id = Inr m'"
  shows "\<exists>atom_count comment content ps.
     readlines fs path = Some (atom_count # comment # content)
     \<and> py_int fs atom_count = Some (int (length (atoms m)))
     \<and> length content = length (atoms m)
     \<and> (\<forall>j < length content. \<exists>el coords. py_split (content ! j) = el # coords
          \<and> element_of fs el = Inr (element (atoms m ! j)))
     \<and> set_position_matrix m ps conformer_id = Inr m'"
proof -
  from assms obtain atom_count comment content ps where
    r: "readlines fs path = Some (atom_count # comment # content)"
    and n: "py_int fs atom_count = Some (int (length (atoms m)))"
    and x: "xyz_lines fs m 0 content = Inr ps"
    and l: "length content = length (atoms m)"
    and s: "set_position_matrix m ps conformer_id = Inr m'"
    by (auto simp: update_from_xyz_def split: option.splits list.splits sum.splits if_splits)
  from xyz_lines_checked[OF x] r n l s show ?thesis by auto
qed

section \<open>Geometry queries: theorems\<close>

lemma fmin_Fin [simp]: "fmin (Fin a) (Fin b) = Fin (min a b)"
  by (auto simp: fmin_def min_def)

lemma fmax_Fin [simp]: "fmax (Fin a) (Fin b) = Fin (max a b)"
  by (auto simp: fmax_def max_def)

lemma finite_vec_cases:
  assumes "finite_vec p"
  obtains x y z where "p = (Fin x, Fin y, Fin z)"
proof -
  obtain a b c where p: "p = (a, b, c)" by (cases p) auto
  with assms obtain x y z where "a = Fin x" "b = Fin y" "c = Fin z"
    by (cases a; cases b; cases c) (auto simp: finite_vec_def)
  with p that show ?thesis by blast
qed





















section \<open>The degenerate rotation: theorems\<close>

lemma bitlen_1: "bitlen 1 = 1"
  by (simp add: bitlen_def floorlog_def)

lemma round_double_0: "round_double 0 = Fin 0"
  by (simp add: round_double_def)

lemma round_double_x:
  assumes x: "x = 1 / 2 ^ 60 - 1"
  shows "round_double x = Fin (- 1)"
proof -
  have nz: "x \<noteq> 0" and neg: "\<not> 0 < x" and a: "\<bar>x\<bar> = 1 - 1 / 2 ^ 60"
    using x by simp_all
  have small: "\<not> 1 \<le> \<bar>x\<bar>" using a by simp
  have "\<lceil>1 / \<bar>x\<bar>\<rceil> = 2"
    unfolding a by (simp add: ceiling_eq_iff)
  then have i: "ilog2 x = - 1"
    using small by (simp add: ilog2_def bitlen_1)
  have p: "pow2 (- 53) = 1 / 2 ^ 53" by (simp add: pow2_def)
  have q: "x / pow2 (- 53) = - 9007199254740992 + 1 / 128"
    unfolding p x by simp
  have "\<lfloor>- 9007199254740992 + 1 / 128 :: real\<rfloor> = - 9007199254740992"
    by (simp add: floor_eq_iff)
  then have r: "round_half_even (x / pow2 (- 53)) = - 9007199254740992"
    unfolding q by (simp add: round_half_even_def Let_def)
  have e: "max (ilog2 x) (- 1022) - 52 = - 53" using i by simp
  have y: "real_of_int (- 9007199254740992) * pow2 (- 53) = - 1"
    unfolding p by simp
  have "round_double x =
     (if 2 ^ 1024 \<le> \<bar>real_of_int (round_half_even (x / pow2 (- 53))) * pow2 (- 53)\<bar>
      then (if 0 < x then PInf else NInf)
      else Fin (real_of_int (round_half_even (x / pow2 (- 53))) * pow2 (- 53)))"
    unfolding round_double_def Let_def e using nz by simp
  also have "\<dots> = Fin (- 1)"
    unfolding r y by simp
  finally show ?thesis .
qed

lemma bitlen_tol: "bitlen 99999999 = 27"
  by code_simp

lemma round_double_tol:
  assumes x: "x = 1 / 10 ^ 8"
  shows "round_double x = Fin (6044629098073146 / 2 ^ 79)"
proof -
  have nz: "x \<noteq> 0" and a: "\<bar>x\<bar> = 1 / 10 ^ 8"
    using x by simp_all
  have small: "\<not> 1 \<le> \<bar>x\<bar>" using a by simp
  have "\<lceil>1 / \<bar>x\<bar>\<rceil> = 100000000"
    unfolding a by simp
  then have i: "ilog2 x = - 27"
    using small by (simp add: ilog2_def bitlen_tol)
  have p: "pow2 (- 79) = 1 / 2 ^ 79" by (simp add: pow2_def)
  have q: "x / pow2 (- 79) = 6044629098073145 + 87353088 / 100000000"
    unfolding p x by simp
  have "\<lfloor>6044629098073145 + 87353088 / 100000000 :: real\<rfloor> = 6044629098073145"
    by (simp add: floor_eq_iff)
  then have r: "round_half_even (x / pow2 (- 79)) = 6044629098073146"
    unfolding q by (simp add: round_half_even_def Let_def)
  have e: "max (ilog2 x) (- 1022) - 52 = - 79" using i by simp
  have y: "real_of_int 6044629098073146 * pow2 (- 79) = 6044629098073146 / 2 ^ 79"
    unfolding p by simp
  have "round_double x =
     (if 2 ^ 1024 \<le> \<bar>real_of_int (round_half_even (x / pow2 (- 79))) * pow2 (- 79)\<bar>
      then (if 0 < x then PInf else NInf)
      else Fin (real_of_int (round_half_even (x / pow2 (- 79))) * pow2 (- 79)))"
    unfolding round_double_def Let_def e using nz by simp
  also have "\<dots> = Fin (6044629098073146 / 2 ^ 79)"
    unfolding r y by simp
  finally show ?thesis .
qed

lemma round_double_tol2:
  assumes x: "x = 6044629098073146 / 2 ^ 79"
  shows "round_double x = Fin (6044629098073146 / 2 ^ 79)"
proof -
  have nz: "x \<noteq> 0" and a: "\<bar>x\<bar> = 6044629098073146 / 2 ^ 79"
    using x by simp_all
  have small: "\<not> 1 \<le> \<bar>x\<bar>" using a by simp
  have "\<lceil>1 / \<bar>x\<bar>\<rceil> = 100000000"
    unfolding a by (simp add: ceiling_eq_iff)
  then have i: "ilog2 x = - 27"
    using small by (simp add: ilog2_def bitlen_tol)
  have p: "pow2 (- 79) = 1 / 2 ^ 79" by (simp add: pow2_def)
  have q: "x / pow2 (- 79) = 6044629098073146"
    unfolding p x by simp
  have r: "round_half_even (x / pow2 (- 79)) = 6044629098073146"
    unfolding q by (simp add: round_half_even_def Let_def)
  have e: "max (ilog2 x) (- 1022) - 52 = - 79" using i by simp
  have y: "real_of_int 6044629098073146 * pow2 (- 79) = 6044629098073146 / 2 ^ 79"
    unfolding p by simp
  have "round_double x =
     (if 2 ^ 1024 \<le> \<bar>real_of_int (round_half_even (x / pow2 (- 79))) * pow2 (- 79)\<bar>
      then (if 0 < x then PInf else NInf)
      else Fin (real_of_int (round_half_even (x / pow2 (- 79))) * pow2 (- 79)))"
    unfolding round_double_def Let_def e using nz by simp
  also have "\<dots> = Fin (6044629098073146 / 2 ^ 79)"
    unfolding r y by simp
  finally show ?thesis .
qed

lemma close_to_zero_double: "close_to_zero round_double (Fin 0)"
proof -
  define t :: real where "t = 6044629098073146 / 2 ^ 79"
  have t1: "round_double (1 / 10 ^ 8) = Fin t"
    unfolding t_def by (rule round_double_tol) simp
  have t2: "round_double t = Fin t"
    unfolding t_def by (rule round_double_tol2) simp
  have tp: "0 < t" unfolding t_def by simp
  show ?thesis
    unfolding close_to_zero_def t1 using tp by (simp add: round_double_0 t2 fle_def)
qed

lemma py_index_Inr:
  assumes "py_index xs i = Inr x"
  shows "nat (if i < 0 then int (length xs) + i else i) < length xs
     \<and> xs ! nat (if i < 0 then int (length xs) + i else i) = x"
  using assms by (auto simp: py_index_def Let_def split: if_splits)

lemma py_set_index_Inr:
  assumes "py_index xs i = Inr x"
  shows "py_set_index xs i v = Inr (xs[nat (if i < 0 then int (length xs) + i else i) := v])"
  using assms by (auto simp: py_index_def py_set_index_def Let_def split: if_splits)

lemma py_index_update:
  assumes "py_index xs i = Inr x"
  shows "py_index (xs[nat (if i < 0 then int (length xs) + i else i) := v]) i = Inr v"
  using assms by (auto simp: py_index_def Let_def split: if_splits)

lemma apply_displacement_Inr:
  assumes "py_index (conformers m) conformer_id = Inr conf"
  shows "apply_displacement rd m d conformer_id =
     Inr (m\<lparr>conformers := (conformers m)
            [nat (if conformer_id < 0 then int (length (conformers m)) + conformer_id
                  else conformer_id) := map (\<lambda>p. vadd rd p d) conf]\<rparr>)"
  using assms py_set_index_Inr[OF assms] by (simp add: apply_displacement_def)

lemma displacement_round_trip:
  assumes "py_index (conformers m) conformer_id = Inr conf"
  shows "\<exists>m1. apply_displacement rd m d1 conformer_id = Inr m1
     \<and> apply_displacement rd m1 d2 conformer_id =
         Inr (m\<lparr>conformers := (conformers m)
            [nat (if conformer_id < 0 then int (length (conformers m)) + conformer_id
                  else conformer_id) := map (\<lambda>p. vadd rd (vadd rd p d1) d2) conf]\<rparr>)"
proof -
  let ?k = "nat (if conformer_id < 0 then int (length (conformers m)) + conformer_id
                  else conformer_id)"
  let ?c1 = "map (\<lambda>p. vadd rd p d1) conf"
  let ?m1 = "m\<lparr>conformers := (conformers m)[?k := ?c1]\<rparr>"
  have 1: "apply_displacement rd m d1 conformer_id = Inr ?m1"
    by (rule apply_displacement_Inr[OF assms])
  have i: "py_index (conformers ?m1) conformer_id = Inr ?c1"
    using py_index_update[OF assms] by simp
  have 2: "apply_displacement rd ?m1 d2 conformer_id =
      Inr (m\<lparr>conformers := (conformers m)[?k := map (\<lambda>p. vadd rd (vadd rd p d1) d2) conf]\<rparr>)"
    using apply_displacement_Inr[OF i, of rd d2] by (simp add: comp_def)
  show ?thesis using 1 2 by blast
qed

lemma vadd_exact_round_trip:
  assumes "finite_vec origin"
  shows "vadd exact (vadd exact p (vneg origin)) origin = p"
proof -
  from assms obtain a b c where o: "origin = (Fin a, Fin b, Fin c)"
    by (auto elim: finite_vec_cases)
  have f: "fadd exact (fadd exact x (Fin (- u))) (Fin u) = x" for x u
    by (cases x) (simp_all add: exact_def)
  obtain x y z where p: "p = (x, y, z)" by (cases p) auto
  show ?thesis unfolding o p by (simp add: vadd_def vneg_def f)
qed

lemma rotation_no_op_nonfinite:
  assumes "\<not> (isfinite s0 \<and> isfinite s1 \<and> isfinite s2)"
  shows "apply_rotation_to_minimize_theta rd ut m (s0, s1, s2) target axis origin conformer_id
     = Inr m"
  using assms by (simp add: apply_rotation_to_minimize_theta_def)

lemma rotation_parallel:
  assumes "isfinite s0 \<and> isfinite s1 \<and> isfinite s2"
    and "allclose_zero rd (projected rd (rotation_matrix ut axis z_axis) (s0, s1, s2))"
    and "py_index (conformers m) conformer_id = Inr conf"
  shows "apply_rotation_to_minimize_theta rd ut m (s0, s1, s2) target axis origin conformer_id
     = Inr (m\<lparr>conformers := (conformers m)
            [nat (if conformer_id < 0 then int (length (conformers m)) + conformer_id
                  else conformer_id) :=
               map (\<lambda>p. vadd rd (vadd rd p (vneg origin)) origin) conf]\<rparr>)"
proof -
  from displacement_round_trip[OF assms(3), of rd "vneg origin" origin]
  obtain m1 where 1: "apply_displacement rd m (vneg origin) conformer_id = Inr m1"
    and 2: "apply_displacement rd m1 origin conformer_id =
         Inr (m\<lparr>conformers := (conformers m)
            [nat (if conformer_id < 0 then int (length (conformers m)) + conformer_id
                  else conformer_id) :=
               map (\<lambda>p. vadd rd (vadd rd p (vneg origin)) origin) conf]\<rparr>)"
    by blast
  show ?thesis
    using assms(1,2) 1 2 by (simp add: apply_rotation_to_minimize_theta_def Let_def)
qed

lemma rotation_parallel_exact:
  assumes "isfinite s0 \<and> isfinite s1 \<and> isfinite s2"
    and "allclose_zero exact (projected exact (rotation_matrix ut axis z_axis) (s0, s1, s2))"
    and "py_index (conformers m) conformer_id = Inr conf"
    and "finite_vec origin"
  shows "apply_rotation_to_minimize_theta exact ut m (s0, s1, s2) target axis origin conformer_id
     = Inr m"
proof -
  let ?k = "nat (if conformer_id < 0
      then int (length (conformers m)) + conformer_id else conformer_id)"
  have c: "map (\<lambda>p. vadd exact (vadd exact p (vneg origin)) origin) conf = conf"
    using vadd_exact_round_trip[OF assms(4)] by (simp add: map_idI)
  have "conformers m ! ?k = conf"
    using py_index_Inr[OF assms(3)] by simp
  then have "(conformers m)[?k := conf] = conformers m"
    by (metis list_update_id)
  then have "m\<lparr>conformers := (conformers m)[?k := conf]\<rparr> = m"
    by simp
  then show ?thesis
    using rotation_parallel[OF assms(1,2,3), of target origin] unfolding c by simp
qed

text \<open>
  Claim C6, as the code has it. (a) When a component of \<^verbatim>\<open>start\<close> is not finite the
  method returns the molecule as it is. (b) When \<^verbatim>\<open>start\<close> is finite and its projection
  is zero within the tolerance, no rotation is applied: the method returns the molecule
  with the positions of that conformer shifted by \<open>-origin\<close> and back by \<open>origin\<close>, each
  coordinate \<open>x\<close> becoming \<open>(x - o) + o\<close> in floating point arithmetic, and nothing else
  changed. (c) In exact arithmetic with a finite origin that is the molecule unchanged.
  The conformer has to exist in (b) and (c).
\<close>

theorem C6_degenerate_rotation:
  "(\<not> (isfinite s0 \<and> isfinite s1 \<and> isfinite s2) \<longrightarrow>
      apply_rotation_to_minimize_theta rd ut m (s0, s1, s2) target axis origin conformer_id
        = Inr m)
   \<and> ((isfinite s0 \<and> isfinite s1 \<and> isfinite s2)
        \<and> allclose_zero rd (projected rd (rotation_matrix ut axis z_axis) (s0, s1, s2))
        \<and> py_index (conformers m) conformer_id = Inr conf \<longrightarrow>
      apply_rotation_to_minimize_theta rd ut m (s0, s1, s2) target axis origin conformer_id
        = Inr (m\<lparr>conformers := (conformers m)
            [nat (if conformer_id < 0 then int (length (conformers m)) + conformer_id
                  else conformer_id) :=
               map (\<lambda>p. vadd rd (vadd rd p (vneg origin)) origin) conf]\<rparr>))
   \<and> ((isfinite s0 \<and> isfinite s1 \<and> isfinite s2)
        \<and> allclose_zero exact (projected exact (rotation_matrix ut axis z_axis) (s0, s1, s2))
        \<and> py_index (conformers m) conformer_id = Inr conf \<and> finite_vec origin \<longrightarrow>
      apply_rotation_to_minimize_theta exact ut m (s0, s1, s2) target axis origin conformer_id
        = Inr m)"
  using rotation_no_op_nonfinite[of s0 s1 s2 rd ut m target axis origin conformer_id]
    rotation_parallel[of s0 s1 s2 rd ut axis m conformer_id conf target origin]
    rotation_parallel_exact[of s0 s1 s2 ut axis m conformer_id conf origin target]
  by blast

lemma projected_z_double:
  "projected round_double (rotation_matrix ut0 z_axis z_axis) (Fin 0, Fin 0, Fin 1)
     = (Fin 0, Fin 0, Fin 0)"
  by (simp add: projected_def ut0_def identity_def mat_vec_def vdot_def round_double_0)

lemma projected_z_exact:
  "projected exact (rotation_matrix ut0 z_axis z_axis) (Fin 0, Fin 0, Fin 1)
     = (Fin 0, Fin 0, Fin 0)"
  by (simp add: projected_def ut0_def identity_def mat_vec_def vdot_def exact_def)

lemma allclose_zero_double: "allclose_zero round_double (Fin 0, Fin 0, Fin 0)"
  by (simp add: allclose_zero_def close_to_zero_double)

lemma allclose_zero_exact: "allclose_zero exact (Fin 0, Fin 0, Fin 0)"
  by (simp add: allclose_zero_def close_to_zero_def exact_def fle_def)

lemma tiny_conformer: "py_index (conformers tiny) 0 = Inr [(Fin (1 / 2 ^ 60), Fin 0, Fin 0)]"
  unfolding tiny_def by (simp add: py_index_def)

lemma tiny_round_trip:
  assumes "x = 1 / 2 ^ 60"
  shows "vadd round_double (vadd round_double (Fin x, Fin 0, Fin 0) (vneg (Fin 1, Fin 0, Fin 0)))
     (Fin 1, Fin 0, Fin 0) = (Fin 0, Fin 0, Fin 0)"
proof -
  have "round_double (x - 1) = Fin (- 1)"
    by (rule round_double_x) (simp add: assms)
  then show ?thesis
    by (simp add: vadd_def vneg_def round_double_0)
qed

text \<open>
  Claim C6 as stated fails in case (b) under binary64 arithmetic: for an atom at
  \<open>x = 2\<^bsup>-60\<^esup>\<close>, an origin at \<open>x = 1\<close> and \<^verbatim>\<open>start\<close> along the axis, the shift
  gives \<open>2\<^bsup>-60\<^esup> - 1\<close>, which rounds to \<open>-1\<close>, and the shift back gives \<open>0\<close>: the
  position matrix has changed.
\<close>

theorem C6_counterexample:
  "isfinite (Fin 0) \<and> isfinite (Fin 1)
   \<and> allclose_zero round_double
        (projected round_double (rotation_matrix ut0 z_axis z_axis) (Fin 0, Fin 0, Fin 1))
   \<and> conformers tiny = [[(Fin (1 / 2 ^ 60), Fin 0, Fin 0)]]
   \<and> apply_rotation_to_minimize_theta round_double ut0 tiny (Fin 0, Fin 0, Fin 1)
        (Fin 1, Fin 0, Fin 0) z_axis (Fin 1, Fin 0, Fin 0) 0
      = Inr (tiny\<lparr>conformers := [[(Fin 0, Fin 0, Fin 0)]]\<rparr>)
   \<and> tiny\<lparr>conformers := [[(Fin 0, Fin 0, Fin 0)]]\<rparr> \<noteq> tiny"
proof -
  have a: "allclose_zero round_double
        (projected round_double (rotation_matrix ut0 z_axis z_axis) (Fin 0, Fin 0, Fin 1))"
    unfolding projected_z_double by (rule allclose_zero_double)
  have f: "isfinite (Fin 0) \<and> isfinite (Fin 0) \<and> isfinite (Fin 1)" by simp
  have c: "conformers tiny = [[(Fin (1 / 2 ^ 60), Fin 0, Fin 0)]]"
    unfolding tiny_def by simp
  have r: "apply_rotation_to_minimize_theta round_double ut0 tiny (Fin 0, Fin 0, Fin 1)
        (Fin 1, Fin 0, Fin 0) z_axis (Fin 1, Fin 0, Fin 0) 0
      = Inr (tiny\<lparr>conformers := (conformers tiny)
            [nat (if (0::int) < 0 then int (length (conformers tiny)) + 0 else 0) :=
               map (\<lambda>p. vadd round_double (vadd round_double p (vneg (Fin 1, Fin 0, Fin 0)))
                     (Fin 1, Fin 0, Fin 0)) [(Fin (1 / 2 ^ 60), Fin 0, Fin 0)]]\<rparr>)"
    by (rule rotation_parallel[OF f a tiny_conformer])
  have m: "map (\<lambda>p. vadd round_double (vadd round_double p (vneg (Fin 1, Fin 0, Fin 0)))
                     (Fin 1, Fin 0, Fin 0)) [(Fin (1 / 2 ^ 60), Fin 0, Fin 0)]
           = [(Fin 0, Fin 0, Fin 0)]"
    unfolding list.map by (simp only: tiny_round_trip[OF refl])
  have u: "(conformers tiny)
            [nat (if (0::int) < 0 then int (length (conformers tiny)) + 0 else 0) :=
               [(Fin 0, Fin 0, Fin 0)]] = [[(Fin 0, Fin 0, Fin 0)]]"
    unfolding c by simp
  have d: "tiny\<lparr>conformers := [[(Fin 0, Fin 0, Fin 0)]]\<rparr> \<noteq> tiny"
  proof
    assume "tiny\<lparr>conformers := [[(Fin 0, Fin 0, Fin 0)]]\<rparr> = tiny"
    then have "conformers (tiny\<lparr>conformers := [[(Fin 0, Fin 0, Fin 0)]]\<rparr>) = conformers tiny"
      by simp
    then show False unfolding c by simp
  qed
  show ?thesis
    using a c d r[unfolded m u] by simp
qed

theorem C6_degenerate_rotation_witness:
  "\<not> isfinite NaN
   \<and> apply_rotation_to_minimize_theta round_double ut0 tiny (NaN, Fin 0, Fin 1)
        (Fin 1, Fin 0, Fin 0) z_axis (Fin 1, Fin 0, Fin 0) 0 = Inr tiny
   \<and> isfinite (Fin 0) \<and> isfinite (Fin 1)
   \<and> allclose_zero exact
        (projected exact (rotation_matrix ut0 z_axis z_axis) (Fin 0, Fin 0, Fin 1))
   \<and> py_index (conformers tiny) 0 = Inr [(Fin (1 / 2 ^ 60), Fin 0, Fin 0)]
   \<and> finite_vec (Fin 1, Fin 0, Fin 0)
   \<and> apply_rotation_to_minimize_theta exact ut0 tiny (Fin 0, Fin 0, Fin 1)
        (Fin 1, Fin 0, Fin 0) z_axis (Fin 1, Fin 0, Fin 0) 0 = Inr tiny"
proof -
  have a: "allclose_zero exact
        (projected exact (rotation_matrix ut0 z_axis z_axis) (Fin 0, Fin 0, Fin 1))"
    unfolding projected_z_exact by (rule allclose_zero_exact)
  have f: "isfinite (Fin 0) \<and> isfinite (Fin 0) \<and> isfinite (Fin 1)" by simp
  have n: "\<not> (isfinite NaN \<and> isfinite (Fin 0) \<and> isfinite (Fin 1))" by simp
  have o: "finite_vec (Fin 1, Fin 0, Fin 0)" by (simp add: finite_vec_def)
  from C6_degenerate_rotation[where ?s0.0 = NaN and ?s1.0 = "Fin 0" and ?s2.0 = "Fin 1"
      and rd = round_double and ut = ut0 and m = tiny and target = "(Fin 1, Fin 0, Fin 0)"
      and axis = z_axis and origin = "(Fin 1, Fin 0, Fin 0)" and conformer_id = 0] n
  have 1: "apply_rotation_to_minimize_theta round_double ut0 tiny (NaN, Fin 0, Fin 1)
        (Fin 1, Fin 0, Fin 0) z_axis (Fin 1, Fin 0, Fin 0) 0 = Inr tiny"
    by blast
  from C6_degenerate_rotation[where ?s0.0 = "Fin 0" and ?s1.0 = "Fin 0" and ?s2.0 = "Fin 1"
      and ut = ut0 and m = tiny and target = "(Fin 1, Fin 0, Fin 0)"
      and axis = z_axis and origin = "(Fin 1, Fin 0, Fin 0)" and conformer_id = 0
      and conf = "[(Fin (1 / 2 ^ 60), Fin 0, Fin 0)]"] f a tiny_conformer o
  have 2: "apply_rotation_to_minimize_theta exact ut0 tiny (Fin 0, Fin 0, Fin 1)
        (Fin 1, Fin 0, Fin 0) z_axis (Fin 1, Fin 0, Fin 0) 0 = Inr tiny"
    by blast
  show ?thesis
    using 1 2 a tiny_conformer o by simp
qed

end
